theory Spec2Isabelle
  imports Complex_Main
begin

section \<open>Bi-encoder modelling: tensors, errors and the torch primitives used\<close>

text \<open>
  The development embeds \<^verbatim>\<open>src/bi-encode/modeling.py\<close>.  A tensor is a nested list
  in row-major order: a 1-D tensor is a list, a 2-D tensor a list of rows, a 3-D
  tensor a list of 2-D tensors.  Floating-point numbers are idealised as reals, so
  rounding, infinities and NaN are outside the model; where torch would produce
  NaN or an infinity (a division by zero, the mean of an empty tensor) the
  theorems carry a hypothesis that excludes the input.  A nested list does not
  record the inner extents of a tensor whose outer axis has length zero.

  Every \<^verbatim>\<open>raise\<close>, failed \<^verbatim>\<open>assert\<close> and library error is a value \<open>Inl e\<close>
  of the result type \<open>error + 'a\<close>.
\<close>

datatype error =
    ValueError
  | AssertionError
  | IndexError
  | RuntimeError
  | AttributeError
  | ZeroDivisionError

type_synonym vec = "real list"
type_synonym matrix = "real list list"
type_synonym tensor3 = "real list list list"

definition bindE :: "error + 'a \<Rightarrow> ('a \<Rightarrow> error + 'b) \<Rightarrow> error + 'b" where
  "bindE r f = (case r of Inl e \<Rightarrow> Inl e | Inr v \<Rightarrow> f v)"

text \<open>\<open>is_matrix B N m\<close>: the nested list \<open>m\<close> is a tensor of shape \<open>B \<times> N\<close>.\<close>

definition is_matrix :: "nat \<Rightarrow> nat \<Rightarrow> 'a list list \<Rightarrow> bool" where
  "is_matrix B N m = (length m = B \<and> list_all (\<lambda>r. length r = N) m)"

text \<open>\<^verbatim>\<open>torch.zeros_like(scores)\<close>.\<close>

definition zeros_like :: "matrix \<Rightarrow> matrix" where
  "zeros_like m = map (\<lambda>r. map (\<lambda>_. 0) r) m"

text \<open>\<^verbatim>\<open>torch.arange(n)\<close>.\<close>

definition arange :: "nat \<Rightarrow> nat list" where
  "arange n = [0..<n]"

subsection \<open>\<^verbatim>\<open>Tensor.scatter_(1, index, src)\<close>\<close>

text \<open>
  For every position \<open>(i, j)\<close> of \<open>index\<close>, in order, \<open>self[i][index[i][j]] := src[i][j]\<close>.
  torch raises a RuntimeError when an index is not below the row length of \<open>self\<close>,
  when \<open>index\<close> has more rows than \<open>self\<close> or \<open>src\<close>, or a row of \<open>index\<close> is longer
  than the row of \<open>src\<close>; an \<open>index\<close> without elements makes the call a no-op.
\<close>

fun scatter_row :: "'a list \<Rightarrow> nat list \<Rightarrow> 'a list \<Rightarrow> error + 'a list" where
  "scatter_row self [] src = Inr self"
| "scatter_row self (k # ks) [] = Inl RuntimeError"
| "scatter_row self (k # ks) (v # vs) =
     (if k < length self then scatter_row (self[k := v]) ks vs else Inl RuntimeError)"

fun scatter_rows :: "'a list list \<Rightarrow> nat list list \<Rightarrow> 'a list list \<Rightarrow> error + 'a list list" where
  "scatter_rows self [] src = Inr self"
| "scatter_rows [] (ix # ixs) src = Inl RuntimeError"
| "scatter_rows (r # rs) (ix # ixs) [] = Inl RuntimeError"
| "scatter_rows (r # rs) (ix # ixs) (s # ss) =
     bindE (scatter_row r ix s) (\<lambda>r'.
     bindE (scatter_rows rs ixs ss) (\<lambda>rs'. Inr (r' # rs')))"

definition scatter_dim1 :: "'a list list \<Rightarrow> nat list list \<Rightarrow> 'a list list \<Rightarrow> error + 'a list list" where
  "scatter_dim1 self index src =
     (if concat index = [] then Inr self else scatter_rows self index src)"

section \<open>BiEncoderModel.forward: target construction\<close>

text \<open>
  Lines 211 to 215 of \<^verbatim>\<open>forward\<close> (training, teacher scores given):
  \<^verbatim>\<open>
  target = torch.zeros_like(scores, device=scores.device, dtype=torch.float32)
  B, N = teacher_score.shape
  indices = torch.arange(B).unsqueeze(1) * N + torch.arange(N)
  target = target.scatter_(1, indices, teacher_score)
  \<close>
  \<open>indices[i][j] = i * N + j\<close> by broadcasting the column \<open>arange(B) * N\<close> against the
  row \<open>arange(N)\<close>.  For \<open>B = 0\<close> the index tensor has no element whatever \<open>N\<close> is.
  Element types are not modelled: the teacher scores are taken to be float32, as
  \<^verbatim>\<open>scatter_\<close> into a float32 target requires.
\<close>

definition shape2 :: "'a list list \<Rightarrow> nat \<times> nat" where
  "shape2 m = (length m, (case m of [] \<Rightarrow> 0 | r # _ \<Rightarrow> length r))"

definition scatter_indices :: "nat \<Rightarrow> nat \<Rightarrow> nat list list" where
  "scatter_indices B N = map (\<lambda>i. map (\<lambda>j. i * N + j) (arange N)) (arange B)"

definition teacher_target :: "matrix \<Rightarrow> matrix \<Rightarrow> error + matrix" where
  "teacher_target scores teacher_score =
     (let target = zeros_like scores;
          (B, N) = shape2 teacher_score;
          indices = scatter_indices B N
      in scatter_dim1 target indices teacher_score)"

text \<open>
  Lines 227 and 228 of \<^verbatim>\<open>forward\<close> (training, no teacher scores):
  \<^verbatim>\<open>
  target = torch.arange(scores.size(0), dtype=torch.long)
  target = target * (p_reps.size(0) // q_reps.size(0))
  \<close>
  The sizes are Python integers, so \<^verbatim>\<open>//\<close> raises ZeroDivisionError for a zero divisor.
\<close>

definition implicit_target :: "nat \<Rightarrow> nat \<Rightarrow> nat \<Rightarrow> error + nat list" where
  "implicit_target scores_size0 p_size0 q_size0 =
     (if q_size0 = 0 then Inl ZeroDivisionError
      else Inr (map (\<lambda>i. i * (p_size0 div q_size0)) (arange scores_size0)))"


section \<open>More torch primitives\<close>

text \<open>Running a fallible function over a list, left to right, stopping at the first error.\<close>

fun mapE :: "('a \<Rightarrow> error + 'b) \<Rightarrow> 'a list \<Rightarrow> error + 'b list" where
  "mapE f [] = Inr []"
| "mapE f (x # xs) = bindE (f x) (\<lambda>y. bindE (mapE f xs) (\<lambda>ys. Inr (y # ys)))"

text \<open>
  Broadcasting of a binary operation along one axis, as torch does it: equal extents
  pair up, an extent of one is repeated against the other, anything else is a
  RuntimeError.
\<close>

definition broadcast2 :: "('a \<Rightarrow> 'b \<Rightarrow> error + 'c) \<Rightarrow> 'a list \<Rightarrow> 'b list \<Rightarrow> error + 'c list" where
  "broadcast2 f xs ys =
     (if length xs = length ys then mapE (\<lambda>(x, y). f x y) (zip xs ys)
      else if length xs = 1 then mapE (\<lambda>y. f (hd xs) y) ys
      else if length ys = 1 then mapE (\<lambda>x. f x (hd ys)) xs
      else Inl RuntimeError)"

text \<open>\<^verbatim>\<open>torch.sum(m, dim=0)\<close> of a 2-D tensor: the sum of its rows, column by column.\<close>

definition sum_dim0 :: "matrix \<Rightarrow> vec" where
  "sum_dim0 m =
     (case m of [] \<Rightarrow> []
      | r # _ \<Rightarrow> map (\<lambda>j. sum_list (map (\<lambda>row. row ! j) m)) [0..<length r])"

definition dot :: "vec \<Rightarrow> vec \<Rightarrow> real" where
  "dot a b = sum_list (map (\<lambda>(x, y). x * y) (zip a b))"

text \<open>
  \<^verbatim>\<open>torch.matmul(q, p.transpose(0, 1))\<close> for 2-D \<open>q\<close> and \<open>p\<close>: entry \<open>(i, j)\<close> is the dot
  product of row \<open>i\<close> of \<open>q\<close> and row \<open>j\<close> of \<open>p\<close>; rows of different lengths are a
  RuntimeError.
\<close>

definition matmul_transposed :: "matrix \<Rightarrow> matrix \<Rightarrow> error + matrix" where
  "matmul_transposed q p =
     mapE (\<lambda>qi. mapE (\<lambda>pj. if length qi = length pj then Inr (dot qi pj)
                               else Inl RuntimeError) p) q"

text \<open>
  \<^verbatim>\<open>t.view(n, -1)\<close>: the elements in row-major order, cut into \<open>n\<close> rows.  torch raises
  a RuntimeError when \<open>n\<close> is zero or does not divide the number of elements.
\<close>

definition view_rows :: "nat \<Rightarrow> 'a list list \<Rightarrow> error + 'a list list" where
  "view_rows n m =
     (let flat = concat m; w = length flat div n
      in if n = 0 \<or> length flat mod n \<noteq> 0 then Inl RuntimeError
         else Inr (map (\<lambda>i. take w (drop (i * w) flat)) [0..<n]))"

text \<open>\<^verbatim>\<open>F.softmax(row, dim=-1)\<close> and \<^verbatim>\<open>F.log_softmax\<close> on one row.\<close>

definition softmax :: "vec \<Rightarrow> vec" where
  "softmax row = map (\<lambda>x. exp x / sum_list (map exp row)) row"

definition log_softmax :: "vec \<Rightarrow> vec" where
  "log_softmax row = map (\<lambda>x. x - ln (sum_list (map exp row))) row"

text \<open>\<^verbatim>\<open>torch.clamp(x, min=lo, max=hi)\<close>, which is \<open>min (max x lo) hi\<close>.\<close>

definition clamp :: "real \<Rightarrow> real \<Rightarrow> real \<Rightarrow> real" where
  "clamp x lo hi = min (max x lo) hi"

text \<open>
  \<^verbatim>\<open>torch.mean\<close> of a 1-D tensor.  torch returns NaN for an empty tensor; the reals
  have no NaN, so a theorem about a mean assumes the tensor not empty.
\<close>

definition mean :: "vec \<Rightarrow> real" where
  "mean xs = sum_list xs / real (length xs)"

text \<open>
  Boolean-mask indexing \<^verbatim>\<open>t[mask]\<close> along the first axis: the rows whose mask entry
  is true, in order; an IndexError when the mask's length is not the number of rows.
\<close>

definition mask_select :: "'a list \<Rightarrow> bool list \<Rightarrow> error + 'a list" where
  "mask_select rows msk =
     (if length msk \<noteq> length rows then Inl IndexError
      else Inr (map fst (filter snd (zip rows msk))))"

subsection \<open>\<^verbatim>\<open>nn.CrossEntropyLoss\<close>\<close>

text \<open>
  The target of a loss is either a 1-D tensor of class indices (dtype long) or a
  2-D float tensor.
\<close>

datatype target = ClassIndex "nat list" | Dense matrix

text \<open>
  Unreduced cross entropy.  With class indices: one index per row of the input
  (else ValueError), each below the number of classes (else IndexError), and the
  loss of row \<open>i\<close> is \<open>- log_softmax(input[i])[target[i]]\<close>.  With a float target of
  the input's shape (class probabilities) the loss of row \<open>i\<close> is
  \<open>- \<Sum>c. target[i][c] * log_softmax(input[i])[c]\<close>.
\<close>

definition cross_entropy_index :: "matrix \<Rightarrow> nat list \<Rightarrow> error + vec" where
  "cross_entropy_index input tgt =
     (if length tgt \<noteq> length input then Inl ValueError
      else mapE (\<lambda>(row, c). if c < length row then Inr (- (log_softmax row ! c))
                              else Inl IndexError) (zip input tgt))"

definition cross_entropy_prob :: "matrix \<Rightarrow> matrix \<Rightarrow> error + vec" where
  "cross_entropy_prob input tgt =
     (if map length tgt \<noteq> map length input then Inl RuntimeError
      else Inr (map (\<lambda>(row, t). - dot t (log_softmax row)) (zip input tgt)))"

subsection \<open>\<^verbatim>\<open>nn.HingeEmbeddingLoss(margin, reduction='mean')\<close>\<close>

text \<open>
  torch computes, elementwise on broadcast operands,
  \<^verbatim>\<open>where(target != 1, clamp_min(margin - x, 0), 0) + where(target != -1, x, 0)\<close>
  and takes the mean.
\<close>

definition hinge_elem :: "real \<Rightarrow> real \<Rightarrow> real \<Rightarrow> real" where
  "hinge_elem margin x y =
     (if y \<noteq> 1 then max (margin - x) 0 else 0) + (if y \<noteq> - 1 then x else 0)"

definition hinge_embedding_loss :: "real \<Rightarrow> vec \<Rightarrow> vec \<Rightarrow> error + real" where
  "hinge_embedding_loss margin input tgt =
     bindE (broadcast2 (\<lambda>x y. Inr (hinge_elem margin x y)) input tgt) (\<lambda>out. Inr (mean out))"

text \<open>\<^verbatim>\<open>F.normalize(x, dim=-1)\<close>: each row divided by \<open>max (its Euclidean norm) 1e-12\<close>.\<close>

definition normalize_rows :: "matrix \<Rightarrow> matrix" where
  "normalize_rows x =
     map (\<lambda>row. map (\<lambda>v. v / max (sqrt (sum_list (map (\<lambda>u. u * u) row))) (1 / 10 ^ 12)) row) x"

section \<open>DensePooler\<close>

text \<open>\<^verbatim>\<open>nn.Linear\<close>: \<open>y = x W\<^sup>T + b\<close> on every row of the input.\<close>

record linear =
  weight :: matrix
  bias :: vec

definition linear_apply :: "linear \<Rightarrow> matrix \<Rightarrow> error + matrix" where
  "linear_apply l x =
     mapE (\<lambda>row. if list_all (\<lambda>w. length w = length row) (weight l)
                   then Inr (map (\<lambda>(w, b). dot w row + b) (zip (weight l) (bias l)))
                   else Inl RuntimeError) x"

text \<open>With \<^verbatim>\<open>tied=True\<close> the two fields hold the same layer.\<close>

record dense_pooler =
  linear_q :: linear
  linear_p :: linear

definition DensePooler_forward :: "dense_pooler \<Rightarrow> matrix option \<Rightarrow> matrix option \<Rightarrow> error + matrix" where
  "DensePooler_forward pl q p =
     (case q of Some qv \<Rightarrow> linear_apply (linear_q pl) qv
      | None \<Rightarrow> (case p of Some pv \<Rightarrow> linear_apply (linear_p pl) pv
                  | None \<Rightarrow> Inl ValueError))"

section \<open>BiEncoderModel\<close>

text \<open>
  A token batch carries the attention mask the model reads; the backbone encoders
  \<^verbatim>\<open>lm_q\<close> and \<^verbatim>\<open>lm_p\<close> are external and enter as functions from a token batch to
  its last hidden state (batch \<open>\<times>\<close> sequence \<open>\<times>\<close> hidden).  The distributed runtime is
  external too: \<open>all_gather env t r\<close> is what slot \<open>r\<close> holds after
  \<^verbatim>\<open>dist.all_gather(all_tensors, t)\<close>.
\<close>

record token_batch =
  input_ids :: "int list list"
  attention_mask :: "int list list"

record dist_env =
  is_initialized :: bool
  get_rank :: int
  get_world_size :: nat
  all_gather :: "matrix \<Rightarrow> nat \<Rightarrow> matrix"

text \<open>
  The attributes \<^verbatim>\<open>process_rank\<close> and \<^verbatim>\<open>world_size\<close> exist only when
  \<^verbatim>\<open>negatives_x_device\<close> was set at construction: \<open>None\<close> is the missing attribute.
  \<^verbatim>\<open>training\<close> is the flag of \<^verbatim>\<open>nn.Module\<close>, true after construction.
\<close>

record bi_encoder_model =
  lm_q :: "token_batch \<Rightarrow> tensor3"
  lm_p :: "token_batch \<Rightarrow> tensor3"
  pooler :: "dense_pooler option"
  untie_encoder :: bool
  normlized :: bool
  sentence_pooling_method :: string
  temperature :: real
  loss_type :: string
  negatives_x_device :: bool
  contrastive_loss_weight :: real
  process_rank :: "int option"
  world_size :: "nat option"
  training :: bool

definition BiEncoderModel_init ::
  "dist_env \<Rightarrow> (token_batch \<Rightarrow> tensor3) \<Rightarrow> (token_batch \<Rightarrow> tensor3) \<Rightarrow> dense_pooler option \<Rightarrow>
   bool \<Rightarrow> bool \<Rightarrow> string \<Rightarrow> bool \<Rightarrow> real \<Rightarrow> real \<Rightarrow> string \<Rightarrow> error + bi_encoder_model" where
  "BiEncoderModel_init env lm_q' lm_p' pooler' untie_encoder' normlized' sentence_pooling_method'
       negatives_x_device' temperature' contrastive_loss_weight' loss_type' =
     (let self = \<lparr> lm_q = lm_q', lm_p = lm_p', pooler = pooler',
                   untie_encoder = untie_encoder', normlized = normlized',
                   sentence_pooling_method = sentence_pooling_method',
                   temperature = temperature', loss_type = loss_type',
                   negatives_x_device = negatives_x_device',
                   contrastive_loss_weight = contrastive_loss_weight',
                   process_rank = None, world_size = None, training = True \<rparr>
      in if negatives_x_device' then
           (if \<not> is_initialized env then Inl ValueError
            else Inr (self\<lparr> process_rank := Some (get_rank env),
                            world_size := Some (get_world_size env) \<rparr>))
         else Inr self)"

text \<open>
  \<^verbatim>\<open>sentence_embedding\<close>.  For \<^verbatim>\<open>'mean'\<close>:
  \<^verbatim>\<open>
  s = torch.sum(hidden_state * mask.unsqueeze(-1).float(), dim=1)
  d = mask.sum(axis=1, keepdim=True).float()
  return s / d
  \<close>
  The mask's added last axis has extent one, so each token vector is scaled by its
  mask entry; the batch and sequence axes broadcast.  \<open>d\<close> keeps a last axis of
  extent one, so each row of \<open>s\<close> is divided by one number.  For \<^verbatim>\<open>'cls'\<close>,
  \<^verbatim>\<open>hidden_state[:, 0]\<close> is an IndexError on an empty sequence axis.  The chain has no
  \<^verbatim>\<open>else\<close>: any other method falls off the end of the function, which returns
  \<^verbatim>\<open>None\<close>.
\<close>

definition sentence_embedding :: "bi_encoder_model \<Rightarrow> tensor3 \<Rightarrow> int list list \<Rightarrow> error + matrix option" where
  "sentence_embedding self hidden_state msk =
     (if sentence_pooling_method self = ''mean'' then
        bindE (broadcast2
                 (broadcast2 (\<lambda>hv mv. Inr (map (\<lambda>x. x * real_of_int mv) hv)))
                 hidden_state msk) (\<lambda>prod.
        let s = map sum_dim0 prod;
            d = map (\<lambda>r. real_of_int (sum_list r)) msk
        in bindE (broadcast2 (\<lambda>sv dv. Inr (map (\<lambda>x. x / dv) sv)) s d) (\<lambda>e. Inr (Some e)))
      else if sentence_pooling_method self = ''cls'' then
        bindE (mapE (\<lambda>h. case h of [] \<Rightarrow> Inl IndexError | r # _ \<Rightarrow> Inr r) hidden_state)
          (\<lambda>e. Inr (Some e))
      else Inr None)"

text \<open>
  \<^verbatim>\<open>encode_passage\<close> and \<^verbatim>\<open>encode_query\<close>.  When the pooled value is \<^verbatim>\<open>None\<close>, the
  pooler is called with neither side (ValueError), and \<^verbatim>\<open>F.normalize\<close> and
  \<^verbatim>\<open>.contiguous()\<close> fail on \<^verbatim>\<open>None\<close> (AttributeError).
\<close>

definition require_tensor :: "'a option \<Rightarrow> error + 'a" where
  "require_tensor t = (case t of None \<Rightarrow> Inl AttributeError | Some v \<Rightarrow> Inr v)"

definition encode_passage :: "bi_encoder_model \<Rightarrow> token_batch option \<Rightarrow> error + matrix option" where
  "encode_passage self psg =
     (case psg of None \<Rightarrow> Inr None
      | Some b \<Rightarrow>
          let p_hidden = lm_p self b in
          bindE (sentence_embedding self p_hidden (attention_mask b)) (\<lambda>p_reps.
          bindE (case pooler self of
                   None \<Rightarrow> Inr p_reps
                 | Some pl \<Rightarrow> bindE (DensePooler_forward pl None p_reps) (\<lambda>r. Inr (Some r))) (\<lambda>p_reps.
          bindE (if normlized self
                 then bindE (require_tensor p_reps) (\<lambda>r. Inr (Some (normalize_rows r)))
                 else Inr p_reps) (\<lambda>p_reps.
          bindE (require_tensor p_reps) (\<lambda>r. Inr (Some r))))))"

definition encode_query :: "bi_encoder_model \<Rightarrow> token_batch option \<Rightarrow> error + matrix option" where
  "encode_query self qry =
     (case qry of None \<Rightarrow> Inr None
      | Some b \<Rightarrow>
          let q_hidden = lm_q self b in
          bindE (sentence_embedding self q_hidden (attention_mask b)) (\<lambda>q_reps.
          bindE (case pooler self of
                   None \<Rightarrow> Inr q_reps
                 | Some pl \<Rightarrow> bindE (DensePooler_forward pl q_reps None) (\<lambda>r. Inr (Some r))) (\<lambda>q_reps.
          bindE (if normlized self
                 then bindE (require_tensor q_reps) (\<lambda>r. Inr (Some (normalize_rows r)))
                 else Inr q_reps) (\<lambda>q_reps.
          bindE (require_tensor q_reps) (\<lambda>r. Inr (Some r))))))"

text \<open>
  \<^verbatim>\<open>compute_similarity\<close>.  The embeddings are 2-D, so the test
  \<^verbatim>\<open>len(p_reps.size()) == 2\<close> holds and the first \<^verbatim>\<open>return\<close> is taken.
\<close>

definition compute_similarity :: "bi_encoder_model \<Rightarrow> matrix \<Rightarrow> matrix \<Rightarrow> error + matrix" where
  "compute_similarity self qr pr = matmul_transposed qr pr"

text \<open>
  A loss is a zero-dimensional tensor.  \<open>Graph v\<close> is a value computed from the
  scores by tensor operations, so it carries the scores' autograd history;
  \<open>Leaf v g\<close> is \<^verbatim>\<open>torch.tensor(v, requires_grad=g)\<close>, a new tensor without history;
  \<open>NonFinite\<close> is a computed value that is not a number of the model: the NaN or
  infinity that a float division by zero returns.
\<close>

datatype loss_tensor = Graph real | Leaf real bool | NonFinite

text \<open>
  \<^verbatim>\<open>loss.sum() / count\<close>, a float tensor divided by an integer tensor.  torch raises
  nothing for a zero divisor: the quotient is NaN or an infinity.
\<close>

definition div_count :: "real \<Rightarrow> nat \<Rightarrow> loss_tensor" where
  "div_count s n = (if n = 0 then NonFinite else Graph (s / real n))"

text \<open>
  \<^verbatim>\<open>(loss != 0.0).int().sum()\<close>, on the per-example losses the library returned.
\<close>

definition count_nonzero :: "vec \<Rightarrow> nat" where
  "count_nonzero l = length (filter (\<lambda>x. x \<noteq> 0) l)"

text \<open>
  \<^verbatim>\<open>compute_loss\<close>.  \<^verbatim>\<open>'multi-softmax'\<close> converts the target with \<^verbatim>\<open>.float()\<close>; a 1-D
  float target is refused by the cross entropy (RuntimeError).  \<^verbatim>\<open>'myloss'\<close> sums
  the target along axis 1, which a 1-D target does not have (IndexError).  Any
  other loss type reaches \<^verbatim>\<open>assert 1 > 2\<close>.

  The \<^verbatim>\<open>'multi-softmax'\<close> branch compares the float32 results of
  \<^verbatim>\<open>cross_entropy_batch = nn.CrossEntropyLoss(reduction='none')\<close> with \<^verbatim>\<open>0.0\<close>
  exactly.  Whether such a result is exactly zero is decided by float32 rounding
  (a saturated row gives exactly zero where the exact value is positive), so the
  library object is a parameter, under the name the source gives it: applied to
  the scores and the float target it yields the per-example losses the code
  sees, or the error the library raises.  \<open>cross_entropy_prob\<close> is its formula in
  exact arithmetic.
\<close>

type_synonym unreduced_loss = "matrix \<Rightarrow> matrix \<Rightarrow> error + vec"

definition compute_loss ::
  "unreduced_loss \<Rightarrow> bi_encoder_model \<Rightarrow> matrix \<Rightarrow> target \<Rightarrow> error + loss_tensor" where
  "compute_loss cross_entropy_batch self sc tgt =
     (if loss_type self = ''softmax'' then
        (case tgt of
           ClassIndex t \<Rightarrow> bindE (cross_entropy_index sc t) (\<lambda>l. Inr (Graph (mean l)))
         | Dense t \<Rightarrow> bindE (cross_entropy_prob sc t) (\<lambda>l. Inr (Graph (mean l))))
      else if loss_type self = ''multi-softmax'' then
        (case tgt of
           ClassIndex t \<Rightarrow> Inl RuntimeError
         | Dense t \<Rightarrow>
             bindE (cross_entropy_batch sc t) (\<lambda>l.
             if count_nonzero l = 0 then Inr (Graph (0 * sum_list l))
             else Inr (div_count (sum_list l) (count_nonzero l))))
      else if loss_type self = ''myloss'' then
        (case tgt of
           ClassIndex t \<Rightarrow> Inl IndexError
         | Dense t \<Rightarrow>
             let valid_mask = map (\<lambda>r. sum_list r > 0) t in
             bindE (mask_select sc valid_mask) (\<lambda>valid_scores.
             bindE (mask_select t valid_mask) (\<lambda>valid_target.
             if length valid_scores = 0 then Inr (Leaf 0 True)
             else
               let soft_scores = map softmax valid_scores in
               bindE (broadcast2 (broadcast2 (\<lambda>a b. Inr (a * b))) soft_scores valid_target)
                 (\<lambda>prod.
               let sum_positives = map sum_list prod;
                   sum_positives = map (\<lambda>x. clamp x (1 / 10 ^ 9) 1) sum_positives;
                   log_sum_scores = map (\<lambda>x. - ln x) sum_positives
               in Inr (Graph (mean log_sum_scores))))))
      else Inl AssertionError)"

text \<open>
  \<^verbatim>\<open>_dist_gather_tensor\<close>.  \<^verbatim>\<open>all_tensors[self.process_rank] = t\<close> is a Python list
  assignment: a negative index counts from the end, an index out of range is an
  IndexError.  \<^verbatim>\<open>torch.cat\<close> along axis 0 joins the rows and refuses an empty list.
\<close>

definition list_setitem :: "'a list \<Rightarrow> int \<Rightarrow> 'a \<Rightarrow> error + 'a list" where
  "list_setitem xs i v =
     (if 0 \<le> i \<and> i < int (length xs) then Inr (xs[nat i := v])
      else if - int (length xs) \<le> i \<and> i < 0 then Inr (xs[nat (int (length xs) + i) := v])
      else Inl IndexError)"

definition cat_dim0 :: "'a list list \<Rightarrow> error + 'a list" where
  "cat_dim0 ts = (if ts = [] then Inl RuntimeError else Inr (concat ts))"

definition dist_gather_tensor :: "bi_encoder_model \<Rightarrow> dist_env \<Rightarrow> matrix option \<Rightarrow> error + matrix option" where
  "dist_gather_tensor self env t =
     (case t of None \<Rightarrow> Inr None
      | Some tv \<Rightarrow>
          bindE (require_tensor (world_size self)) (\<lambda>ws.
          let all_tensors = map (all_gather env tv) [0..<ws] in
          bindE (require_tensor (process_rank self)) (\<lambda>rank.
          bindE (list_setitem all_tensors rank tv) (\<lambda>all_tensors.
          bindE (cat_dim0 all_tensors) (\<lambda>r. Inr (Some r))))))"

text \<open>
  \<^verbatim>\<open>EncoderOutput\<close> and \<^verbatim>\<open>forward\<close>.  \<^verbatim>\<open>forward\<close> hands the library's unreduced
  cross entropy on to \<^verbatim>\<open>compute_loss\<close>.  \<^verbatim>\<open>scores / self.temperature\<close> is checked
  nowhere; at temperature zero torch returns infinities or NaN, which the
  real-number model does not represent.
\<close>

record encoder_output =
  q_reps :: "matrix option"
  p_reps :: "matrix option"
  loss :: "loss_tensor option"
  scores :: "matrix option"

definition gather_if_x_device :: "bi_encoder_model \<Rightarrow> dist_env \<Rightarrow> matrix \<Rightarrow> error + matrix" where
  "gather_if_x_device self env t =
     (if negatives_x_device self
      then bindE (dist_gather_tensor self env (Some t)) require_tensor
      else Inr t)"

definition forward ::
  "unreduced_loss \<Rightarrow> bi_encoder_model \<Rightarrow> dist_env \<Rightarrow> token_batch option \<Rightarrow> token_batch option \<Rightarrow>
   matrix option \<Rightarrow> error + encoder_output" where
  "forward cross_entropy_batch self env query passage teacher_score =
     bindE (encode_query self query) (\<lambda>qo.
     bindE (encode_passage self passage) (\<lambda>po.
     case (qo, po) of
       (Some qr, Some pr) \<Rightarrow>
         if training self then
           (case teacher_score of
              Some ts \<Rightarrow>
                bindE (gather_if_x_device self env qr) (\<lambda>qr.
                bindE (gather_if_x_device self env pr) (\<lambda>pr.
                bindE (gather_if_x_device self env ts) (\<lambda>ts.
                bindE (compute_similarity self qr pr) (\<lambda>sc.
                let sc = map (map (\<lambda>x. x / temperature self)) sc in
                bindE (view_rows (length qr) sc) (\<lambda>sc.
                bindE (teacher_target sc ts) (\<lambda>tgt.
                bindE (compute_loss cross_entropy_batch self sc (Dense tgt)) (\<lambda>l.
                Inr \<lparr> q_reps = Some qr, p_reps = Some pr, loss = Some l, scores = Some sc \<rparr>)))))))
            | None \<Rightarrow>
                bindE (gather_if_x_device self env qr) (\<lambda>qr.
                bindE (gather_if_x_device self env pr) (\<lambda>pr.
                bindE (compute_similarity self qr pr) (\<lambda>sc.
                let sc = map (map (\<lambda>x. x / temperature self)) sc in
                bindE (view_rows (length qr) sc) (\<lambda>sc.
                bindE (implicit_target (length sc) (length pr) (length qr)) (\<lambda>tgt.
                bindE (compute_loss cross_entropy_batch self sc (ClassIndex tgt)) (\<lambda>l.
                Inr \<lparr> q_reps = Some qr, p_reps = Some pr, loss = Some l, scores = Some sc \<rparr>)))))))
         else
           bindE (compute_similarity self qr pr) (\<lambda>sc.
           Inr \<lparr> q_reps = Some qr, p_reps = Some pr, loss = None, scores = Some sc \<rparr>)
     | _ \<Rightarrow> Inr \<lparr> q_reps = qo, p_reps = po, loss = None, scores = None \<rparr>))"

section \<open>MultiBiEncoderModel\<close>

text \<open>
  \<^verbatim>\<open>compute_loss\<close> of the multi-encoder variant, with
  \<^verbatim>\<open>self.loss_func = nn.HingeEmbeddingLoss(margin=0.5, reduction='mean')\<close>:
  \<^verbatim>\<open>
  target = target * 2 - 1;  target = target.flatten()
  distance = 1 - scores;    distance = distance.flatten()
  loss = self.loss_func(distance, target)
  \<close>
\<close>

definition flatten :: "'a list list \<Rightarrow> 'a list" where
  "flatten m = concat m"

definition MultiBiEncoderModel_compute_loss :: "matrix \<Rightarrow> matrix \<Rightarrow> error + loss_tensor" where
  "MultiBiEncoderModel_compute_loss sc tgt =
     (let tgt = map (map (\<lambda>t. t * 2 - 1)) tgt;
          tgt = flatten tgt;
          distance = map (map (\<lambda>s. 1 - s)) sc;
          distance = flatten distance
      in bindE (hinge_embedding_loss (1 / 2) distance tgt) (\<lambda>l. Inr (Graph l)))"

section \<open>What the specification says, for comparison with the code\<close>

text \<open>
  Shapes of the inputs: a 3-D tensor of extents \<open>B \<times> T \<times> H\<close>, an attention mask whose
  entries are 0 (padding) or 1 (a real token), and a mask with a real token in
  every row.
\<close>

definition is_tensor3 :: "nat \<Rightarrow> nat \<Rightarrow> nat \<Rightarrow> 'a list list list \<Rightarrow> bool" where
  "is_tensor3 B T H h = (length h = B \<and> list_all (is_matrix T H) h)"

definition is_attention_mask :: "int list list \<Rightarrow> bool" where
  "is_attention_mask msk = list_all (list_all (\<lambda>x. x = 0 \<or> x = 1)) msk"

definition every_row_unmasked :: "int list list \<Rightarrow> bool" where
  "every_row_unmasked msk = list_all (\<lambda>r. 1 \<in> set r) msk"

definition all_ones :: "int list list \<Rightarrow> bool" where
  "all_ones msk = list_all (list_all (\<lambda>x. x = 1)) msk"

text \<open>
  Mean pooling in the specification's words, for one example with token vectors
  \<open>h\<close> and mask row \<open>mrow\<close>, at hidden position \<open>j\<close>: the sum over the sequence
  axis of the token vectors times the mask, divided by the number of unmasked
  tokens; and the plain average of the token vectors.
\<close>

definition unmasked_count :: "int list \<Rightarrow> nat" where
  "unmasked_count mrow = length (filter (\<lambda>x. x = 1) mrow)"

definition masked_average :: "matrix \<Rightarrow> int list \<Rightarrow> nat \<Rightarrow> real" where
  "masked_average h mrow j =
     sum_list (map (\<lambda>t. h ! t ! j * real_of_int (mrow ! t)) [0..<length h])
       / real (unmasked_count mrow)"

definition plain_average :: "matrix \<Rightarrow> nat \<Rightarrow> real" where
  "plain_average h j = sum_list (map (\<lambda>t. h ! t ! j) [0..<length h]) / real (length h)"

text \<open>
  The multi-softmax reduction in the specification's words: the sum of the
  per-example losses divided by the number of examples whose loss is nonzero, and
  zero when every per-example loss is zero.
\<close>

definition nonzero_mean :: "vec \<Rightarrow> real" where
  "nonzero_mean l =
     (if list_all (\<lambda>x. x = 0) l then 0
      else sum_list l / real (length (filter (\<lambda>x. x \<noteq> 0) l)))"

text \<open>
  The positive-mass loss in the specification's words: keep the rows whose target
  row-sum is positive; the loss of a kept row is minus the logarithm of the clamped
  dot product of the softmax of its scores with its target; the result is the mean
  over the kept rows, and a zero leaf with gradient tracking when no row is kept.
\<close>

definition myloss_row :: "vec \<Rightarrow> vec \<Rightarrow> real" where
  "myloss_row s t = - ln (clamp (dot (softmax s) t) (1 / 10 ^ 9) 1)"

definition myloss_spec :: "matrix \<Rightarrow> matrix \<Rightarrow> loss_tensor" where
  "myloss_spec sc tgt =
     (let kept = filter (\<lambda>(s, t). sum_list t > 0) (zip sc tgt)
      in if kept = [] then Leaf 0 True
         else Graph (mean (map (\<lambda>(s, t). myloss_row s t) kept)))"

text \<open>
  The hinge embedding loss as torch documents it for labels \<open>1\<close> and \<open>-1\<close>: the
  distance itself for a positive pair, \<open>max 0 (margin - distance)\<close> for a negative one.
\<close>

definition hinge_documented :: "real \<Rightarrow> real \<Rightarrow> real \<Rightarrow> real" where
  "hinge_documented margin x y = (if y = 1 then x else max 0 (margin - x))"

text \<open>
  Stand-ins for the external collaborators in closed examples: a backbone that
  returns a fixed hidden state, and a runtime with one process that was not
  initialised.
\<close>

definition constant_encoder :: "tensor3 \<Rightarrow> token_batch \<Rightarrow> tensor3" where
  "constant_encoder h b = h"

definition echo_gather :: "matrix \<Rightarrow> nat \<Rightarrow> matrix" where
  "echo_gather t r = t"

definition single_process_env :: dist_env where
  "single_process_env =
     \<lparr> is_initialized = False, get_rank = 0, get_world_size = 1, all_gather = echo_gather \<rparr>"

definition example_model :: "string \<Rightarrow> string \<Rightarrow> real \<Rightarrow> bool \<Rightarrow> bi_encoder_model" where
  "example_model method lt temp train =
     \<lparr> lm_q = constant_encoder [[[1]]], lm_p = constant_encoder [[[1]]], pooler = None,
       untie_encoder = False, normlized = False, sentence_pooling_method = method,
       temperature = temp, loss_type = lt, negatives_x_device = False,
       contrastive_loss_weight = 1, process_rank = None, world_size = None,
       training = train \<rparr>"

text \<open>
  The product \<^verbatim>\<open>hidden_state * mask.unsqueeze(-1).float()\<close> for one example whose
  token count and mask length agree: every token vector times its mask entry.
\<close>

definition scale_tokens :: "matrix \<Rightarrow> int list \<Rightarrow> matrix" where
  "scale_tokens h mrow = map (\<lambda>(hv, mv). map (\<lambda>x. x * real_of_int mv) hv) (zip h mrow)"

section \<open>Target construction: proofs\<close>

lemma scatter_row_block:
  "off + length v \<le> length s \<Longrightarrow>
   scatter_row s (map (\<lambda>j. off + j) [0..<length v]) v
     = Inr (take off s @ v @ drop (off + length v) s)"
proof (induction v arbitrary: off s)
  case Nil
  then show ?case by simp
next
  case (Cons x xs)
  have idx: "map (\<lambda>j. off + j) [0..<Suc (length xs)]
               = off # map (\<lambda>j. Suc (off + j)) [0..<length xs]"
    by (simp add: upt_conv_Cons map_Suc_upt [symmetric] del: upt_Suc)
  have len: "Suc off + length xs \<le> length (s[off := x])"
    using Cons.prems by simp
  have lt: "off < length s"
    using Cons.prems by simp
  have "scatter_row s (map (\<lambda>j. off + j) [0..<length (x # xs)]) (x # xs)
          = scatter_row (s[off := x]) (map (\<lambda>j. Suc off + j) [0..<length xs]) xs"
    using lt by (simp add: idx del: upt_Suc)
  also have "\<dots> = Inr (take (Suc off) (s[off := x]) @ xs @ drop (Suc off + length xs) (s[off := x]))"
    by (rule Cons.IH [OF len])
  also have "\<dots> = Inr (take off s @ (x # xs) @ drop (off + length (x # xs)) s)"
    using lt by (simp add: take_Suc_conv_app_nth)
  finally show ?case .
qed

lemma scatter_rows_pointwise:
  "length rows = length idx \<Longrightarrow> length idx = length src \<Longrightarrow>
   (\<And>i. i < length src \<Longrightarrow> scatter_row (rows ! i) (idx ! i) (src ! i) = Inr (f i)) \<Longrightarrow>
   scatter_rows rows idx src = Inr (map f [0..<length src])"
proof (induction rows idx src arbitrary: f rule: list_induct3)
  case Nil
  then show ?case by simp
next
  case (Cons r rs ix ixs s ss)
  have hd: "scatter_row r ix s = Inr (f 0)"
    using Cons.prems [of 0] by simp
  have tl: "scatter_rows rs ixs ss = Inr (map (f \<circ> Suc) [0..<length ss])"
  proof (rule Cons.IH)
    fix i assume "i < length ss"
    then show "scatter_row (rs ! i) (ixs ! i) (ss ! i) = Inr ((f \<circ> Suc) i)"
      using Cons.prems [of "Suc i"] by simp
  qed
  have "map f [0..<length (s # ss)] = f 0 # map (f \<circ> Suc) [0..<length ss]"
    by (simp add: upt_conv_Cons map_Suc_upt [symmetric] del: upt_Suc)
  then show ?case
    using hd tl by (simp add: bindE_def del: upt_Suc)
qed

lemma is_matrix_nth: "is_matrix B N m \<Longrightarrow> i < B \<Longrightarrow> length (m ! i) = N"
  by (simp add: is_matrix_def list_all_length)

lemma zeros_like_replicate: "is_matrix B C m \<Longrightarrow> zeros_like m = replicate B (replicate C 0)"
  by (auto simp: is_matrix_def zeros_like_def list_all_length intro!: nth_equalityI)

lemma teacher_target_rows:
  assumes R: "is_matrix B N R" and S: "is_matrix B (B * N) S"
  shows "teacher_target S R
           = Inr (map (\<lambda>i. replicate (i * N) 0 @ R ! i @ replicate (B * N - (i * N + N)) 0) [0..<B])"
proof (cases "B = 0")
  case True
  then show ?thesis
    using R S by (simp add: is_matrix_def teacher_target_def shape2_def scatter_indices_def
        arange_def scatter_dim1_def zeros_like_def)
next
  case False
  let ?z = "replicate (B * N) (0::real)"
  let ?f = "\<lambda>i. replicate (i * N) 0 @ R ! i @ replicate (B * N - (i * N + N)) (0::real)"
  have lenR: "length R = B" using R by (simp add: is_matrix_def)
  have shape: "shape2 R = (B, N)"
    using False R by (cases R) (auto simp: shape2_def is_matrix_def)
  have zl: "zeros_like S = replicate B ?z"
    by (rule zeros_like_replicate [OF S])
  have bound: "i * N + N \<le> B * N" if "i < B" for i
  proof -
    have "Suc i * N \<le> B * N" using that by (intro mult_le_mono1) simp
    then show ?thesis by (simp add: add.commute)
  qed
  have row: "scatter_row (replicate B ?z ! i) (scatter_indices B N ! i) (R ! i) = Inr (?f i)"
    if "i < length R" for i
  proof -
    have i: "i < B" using that lenR by simp
    have len: "length (R ! i) = N" by (rule is_matrix_nth [OF R i])
    have "scatter_row ?z (map (\<lambda>j. i * N + j) [0..<length (R ! i)]) (R ! i)
            = Inr (take (i * N) ?z @ R ! i @ drop (i * N + length (R ! i)) ?z)"
      by (rule scatter_row_block) (simp add: len bound [OF i])
    then show ?thesis
      using i bound [OF i] by (simp add: len scatter_indices_def arange_def min_def)
  qed
  have rows: "scatter_rows (replicate B ?z) (scatter_indices B N) R = Inr (map ?f [0..<length R])"
  proof (rule scatter_rows_pointwise)
    show "length (replicate B ?z) = length (scatter_indices B N)"
      by (simp add: scatter_indices_def arange_def)
    show "length (scatter_indices B N) = length R"
      by (simp add: lenR scatter_indices_def arange_def)
    show "scatter_row (replicate B ?z ! i) (scatter_indices B N ! i) (R ! i) = Inr (?f i)"
      if "i < length R" for i
      by (rule row [OF that])
  qed
  have noop: "replicate B ?z = map ?f [0..<B]" if "concat (scatter_indices B N) = []"
  proof -
    have "N = 0" using that False by (auto simp: scatter_indices_def arange_def)
    then show ?thesis
      using R by (auto simp: is_matrix_def list_all_length intro!: nth_equalityI)
  qed
  show ?thesis
    using rows noop by (simp add: teacher_target_def shape zl scatter_dim1_def lenR Let_def)
qed

text \<open>
  C1.  For a teacher relevance matrix \<open>R\<close> of shape \<open>B \<times> N\<close> and scores of shape
  \<open>B \<times> (B * N)\<close>, the target construction succeeds, the target has the shape of the
  scores, and its row \<open>i\<close> holds \<open>R[i]\<close> on the columns from \<open>i * N\<close> up to
  \<open>i * N + N\<close> (exclusive) and zero on every other column.
\<close>

theorem teacher_target_scatter:
  assumes R: "is_matrix B N R" and S: "is_matrix B (B * N) S"
  shows "\<exists>T. teacher_target S R = Inr T \<and> is_matrix B (B * N) T \<and>
           (\<forall>i<B. \<forall>c<B * N.
              T ! i ! c = (if i * N \<le> c \<and> c < i * N + N then R ! i ! (c - i * N) else 0))"
proof -
  let ?f = "\<lambda>i. replicate (i * N) 0 @ R ! i @ replicate (B * N - (i * N + N)) (0::real)"
  let ?T = "map ?f [0..<B]"
  have bound: "i * N + N \<le> B * N" if "i < B" for i
  proof -
    have "Suc i * N \<le> B * N" using that by (intro mult_le_mono1) simp
    then show ?thesis by (simp add: add.commute)
  qed
  have len: "length (R ! i) = N" if "i < B" for i
    by (rule is_matrix_nth [OF R that])
  have shape: "is_matrix B (B * N) ?T"
    using bound len by (simp add: is_matrix_def list_all_iff)
  have elem: "?T ! i ! c = (if i * N \<le> c \<and> c < i * N + N then R ! i ! (c - i * N) else 0)"
    if "i < B" "c < B * N" for i c
    using that len [OF that(1)] bound [OF that(1)] by (auto simp: nth_append)
  show ?thesis
    using teacher_target_rows [OF R S] shape elem by blast
qed

lemma view_rows_length: "view_rows n m = Inr r \<Longrightarrow> length r = n"
  by (auto simp: view_rows_def Let_def split: if_splits)

text \<open>
  C2.  In a training call without teacher scores, with \<open>Q\<close> queries and
  \<open>P = k * Q\<close> passages for a positive \<open>k\<close>, the implicit class target is built
  without error, has one entry per query, and its entry \<open>i\<close> is \<open>i * k\<close> for every
  \<open>i\<close> below \<open>Q\<close>.
\<close>

theorem implicit_target_block:
  "0 < k \<Longrightarrow> P = k * Q \<Longrightarrow> i < Q \<Longrightarrow>
   \<exists>T. implicit_target Q P Q = Inr T \<and> length T = Q \<and> T ! i = i * k"
  by (simp add: implicit_target_def arange_def)

theorem teacher_target_scatter_witness:
  "is_matrix 2 2 [[1, 0], [1 / 2, 1::real]] \<and>
   is_matrix 2 (2 * 2) [[3, 1, 4, 1], [5, 9, 2, 6::real]] \<and>
   (\<exists>T. teacher_target [[3, 1, 4, 1], [5, 9, 2, 6]] [[1, 0], [1 / 2, 1]] = Inr T \<and>
        is_matrix 2 (2 * 2) T \<and>
        (\<forall>i<2. \<forall>c<2 * 2.
           T ! i ! c = (if i * 2 \<le> c \<and> c < i * 2 + 2 then [[1, 0], [1 / 2, 1]] ! i ! (c - i * 2) else 0)))"
proof -
  have R: "is_matrix 2 2 [[1, 0], [1 / 2, 1::real]]"
    by (simp add: is_matrix_def)
  have S: "is_matrix 2 (2 * 2) [[3, 1, 4, 1], [5, 9, 2, 6::real]]"
    by (simp add: is_matrix_def)
  show ?thesis
    using R S teacher_target_scatter [OF R S] by simp
qed

theorem implicit_target_block_witness:
  "(0::nat) < 2 \<and> (4::nat) = 2 * 2 \<and> (1::nat) < 2 \<and>
   (\<exists>T. implicit_target 2 4 2 = Inr T \<and> length T = 2 \<and> T ! 1 = 1 * 2)"
  using implicit_target_block [of 2 4 2 1] by simp

section \<open>Sentence pooling: proofs\<close>
lemma mapE_Inr:
  "(\<And>x. x \<in> set xs \<Longrightarrow> f x = Inr (g x)) \<Longrightarrow> mapE f xs = Inr (map g xs)"
  by (induction xs) (simp_all add: bindE_def)

lemma broadcast2_zip:
  assumes "length xs = length ys"
    and "\<And>x y. (x, y) \<in> set (zip xs ys) \<Longrightarrow> f x y = Inr (g x y)"
  shows "broadcast2 f xs ys = Inr (map (\<lambda>(x, y). g x y) (zip xs ys))"
proof -
  have "mapE (\<lambda>(x, y). f x y) (zip xs ys) = Inr (map (\<lambda>(x, y). g x y) (zip xs ys))"
    by (rule mapE_Inr) (use assms(2) in auto)
  then show ?thesis
    using assms(1) by (simp add: broadcast2_def)
qed

lemma sum_list_map_nth:
  "sum_list (map f xs) = sum_list (map (\<lambda>t. f (xs ! t)) [0..<length xs])"
proof -
  have "map f xs = map (\<lambda>t. f (xs ! t)) [0..<length xs]"
    by (rule nth_equalityI) simp_all
  then show ?thesis by simp
qed

lemma mask_sum_count:
  "list_all (\<lambda>x. x = 0 \<or> x = 1) mrow \<Longrightarrow> sum_list mrow = int (unmasked_count mrow)"
  by (induction mrow) (auto simp: unmasked_count_def)

lemma sum_dim0_nth:
  assumes "is_matrix T H m" "0 < T" "j < H"
  shows "sum_dim0 m ! j = sum_list (map (\<lambda>t. m ! t ! j) [0..<T])"
proof -
  obtain r rs where m: "m = r # rs"
    using assms(1,2) by (cases m) (auto simp: is_matrix_def)
  have "length r = H" using assms(1) m by (simp add: is_matrix_def)
  then have "sum_dim0 m ! j = sum_list (map (\<lambda>row. row ! j) m)"
    using assms(3) by (simp add: sum_dim0_def m del: upt_Suc)
  also have "\<dots> = sum_list (map (\<lambda>t. m ! t ! j) [0..<length m])"
    by (rule sum_list_map_nth)
  finally show ?thesis using assms(1) by (simp add: is_matrix_def)
qed

lemma sum_dim0_length:
  "is_matrix T H m \<Longrightarrow> 0 < T \<Longrightarrow> length (sum_dim0 m) = H"
  by (cases m) (auto simp: is_matrix_def sum_dim0_def)


lemma is_tensor3_nth: "is_tensor3 B T H h \<Longrightarrow> i < B \<Longrightarrow> is_matrix T H (h ! i)"
  by (simp add: is_tensor3_def list_all_length)

lemma is_matrix_length: "is_matrix B N m \<Longrightarrow> length m = B"
  by (simp add: is_matrix_def)

lemma scale_tokens_matrix:
  "is_matrix T H h \<Longrightarrow> length mrow = T \<Longrightarrow> is_matrix T H (scale_tokens h mrow)"
  by (auto simp: is_matrix_def scale_tokens_def list_all_length)

lemma scale_tokens_nth:
  "is_matrix T H h \<Longrightarrow> length mrow = T \<Longrightarrow> t < T \<Longrightarrow> j < H \<Longrightarrow>
   scale_tokens h mrow ! t ! j = h ! t ! j * real_of_int (mrow ! t)"
  by (simp add: is_matrix_def scale_tokens_def list_all_length)

lemma mean_product:
  assumes h: "is_tensor3 B T H hidden" and m: "is_matrix B T msk"
  shows "broadcast2 (broadcast2 (\<lambda>hv mv. Inr (map (\<lambda>x. x * real_of_int mv) hv))) hidden msk
           = Inr (map (\<lambda>(h, mrow). scale_tokens h mrow) (zip hidden msk))"
proof (rule broadcast2_zip)
  show "length hidden = length msk"
    using h m by (simp add: is_tensor3_def is_matrix_def)
  fix x y assume "(x, y) \<in> set (zip hidden msk)"
  then obtain i where i: "i < B" "x = hidden ! i" "y = msk ! i"
    using h by (auto simp: set_zip is_tensor3_def)
  have "length x = length y"
    using is_tensor3_nth [OF h i(1)] is_matrix_nth [OF m i(1)] i
    by (simp add: is_matrix_def)
  then show "broadcast2 (\<lambda>hv mv. Inr (map (\<lambda>x. x * real_of_int mv) hv)) x y
               = Inr (scale_tokens x y)"
    unfolding scale_tokens_def by (rule broadcast2_zip) simp
qed

lemma mean_pooling_value:
  assumes meth: "sentence_pooling_method self = ''mean''"
    and h: "is_tensor3 B T H hidden" and m: "is_matrix B T msk"
  shows "sentence_embedding self hidden msk
           = Inr (Some (map (\<lambda>(sv, dv). map (\<lambda>x. x / dv) sv)
                   (zip (map sum_dim0 (map (\<lambda>(h, mrow). scale_tokens h mrow) (zip hidden msk)))
                        (map (\<lambda>r. real_of_int (sum_list r)) msk))))"
proof -
  let ?s = "map sum_dim0 (map (\<lambda>(h, mrow). scale_tokens h mrow) (zip hidden msk))"
  let ?d = "map (\<lambda>r. real_of_int (sum_list r)) msk"
  have len: "length ?s = length ?d"
    using h m by (simp add: is_tensor3_def is_matrix_def)
  have "broadcast2 (\<lambda>sv dv. Inr (map (\<lambda>x. x / dv) sv)) ?s ?d
          = Inr (map (\<lambda>(sv, dv). map (\<lambda>x. x / dv) sv) (zip ?s ?d))"
    using len by (rule broadcast2_zip) simp
  then show ?thesis
    by (simp add: sentence_embedding_def meth mean_product [OF h m] bindE_def Let_def)
qed


lemma all_ones_count: "list_all (\<lambda>x. x = 1) mrow \<Longrightarrow> unmasked_count mrow = length mrow"
  by (induction mrow) (simp_all add: unmasked_count_def)

lemma masked_average_all_ones:
  assumes "list_all (\<lambda>x. x = 1) mrow" "length mrow = length h"
  shows "masked_average h mrow j = plain_average h j"
proof -
  have one: "mrow ! t = 1" if "t < length h" for t
    using assms that by (simp add: list_all_length)
  have "map (\<lambda>t. h ! t ! j * real_of_int (mrow ! t)) [0..<length h]
          = map (\<lambda>t. h ! t ! j) [0..<length h]"
    by (rule map_cong) (simp_all add: one)
  then show ?thesis
    unfolding masked_average_def plain_average_def
    by (simp only: all_ones_count [OF assms(1)] assms(2))
qed

text \<open>
  C7.  With the \<^verbatim>\<open>'mean'\<close> method, a hidden state of shape \<open>B \<times> T \<times> H\<close> and a 0/1
  attention mask of shape \<open>B \<times> T\<close> with an unmasked token in every row, pooling
  returns a \<open>B \<times> H\<close> embedding whose entry \<open>(i, j)\<close> is the sum over the sequence
  axis of the token values times the mask, divided by the number of unmasked
  tokens of example \<open>i\<close>; for a mask of ones it is the plain average of the tokens.
\<close>

theorem mean_pooling_masked_average:
  assumes meth: "sentence_pooling_method self = ''mean''"
    and h: "is_tensor3 B T H hidden" and m: "is_matrix B T msk"
    and am: "is_attention_mask msk" and un: "every_row_unmasked msk"
  shows "\<exists>E. sentence_embedding self hidden msk = Inr (Some E) \<and> is_matrix B H E \<and>
           (\<forall>i<B. \<forall>j<H. E ! i ! j = masked_average (hidden ! i) (msk ! i) j) \<and>
           (all_ones msk \<longrightarrow> (\<forall>i<B. \<forall>j<H. E ! i ! j = plain_average (hidden ! i) j))"
proof -
  let ?s = "map sum_dim0 (map (\<lambda>(h, mrow). scale_tokens h mrow) (zip hidden msk))"
  let ?d = "map (\<lambda>r. real_of_int (sum_list r)) msk"
  let ?E = "map (\<lambda>(sv, dv). map (\<lambda>x. x / dv) sv) (zip ?s ?d)"
  have lh: "length hidden = B" using h by (simp add: is_tensor3_def)
  have lm: "length msk = B" using m by (simp add: is_matrix_def)
  have hi: "is_matrix T H (hidden ! i)" if "i < B" for i
    by (rule is_tensor3_nth [OF h that])
  have mi: "length (msk ! i) = T" if "i < B" for i
    by (rule is_matrix_nth [OF m that])
  have Tpos: "0 < T" if "i < B" for i
  proof -
    have "1 \<in> set (msk ! i)"
      using un that lm by (simp add: every_row_unmasked_def list_all_length)
    then show ?thesis using mi [OF that] by (cases "msk ! i") auto
  qed
  have cnt: "real_of_int (sum_list (msk ! i)) = real (unmasked_count (msk ! i))" if "i < B" for i
  proof -
    have "list_all (\<lambda>x. x = 0 \<or> x = 1) (msk ! i)"
      using am that lm by (simp add: is_attention_mask_def list_all_length)
    then show ?thesis by (simp add: mask_sum_count)
  qed
  have row: "?E ! i = map (\<lambda>x. x / real (unmasked_count (msk ! i)))
                        (sum_dim0 (scale_tokens (hidden ! i) (msk ! i)))" if "i < B" for i
    using that lh lm cnt [OF that] by simp
  have sm: "is_matrix T H (scale_tokens (hidden ! i) (msk ! i))" if "i < B" for i
    by (rule scale_tokens_matrix [OF hi [OF that] mi [OF that]])
  have shape: "is_matrix B H ?E"
    unfolding is_matrix_def list_all_length
  proof (intro conjI allI impI)
    show "length ?E = B" using lh lm by simp
    fix i assume "i < length ?E"
    then have i: "i < B" using lh lm by simp
    show "length (?E ! i) = H"
      by (simp only: row [OF i] length_map sum_dim0_length [OF sm [OF i] Tpos [OF i]])
  qed
  have elem: "?E ! i ! j = masked_average (hidden ! i) (msk ! i) j" if i: "i < B" and j: "j < H" for i j
  proof -
    have len: "length (hidden ! i) = T"
      using hi [OF i] by (simp add: is_matrix_def)
    have "sum_dim0 (scale_tokens (hidden ! i) (msk ! i)) ! j
            = sum_list (map (\<lambda>t. scale_tokens (hidden ! i) (msk ! i) ! t ! j) [0..<T])"
      by (rule sum_dim0_nth [OF sm [OF i] Tpos [OF i] j])
    also have "\<dots> = sum_list (map (\<lambda>t. hidden ! i ! t ! j * real_of_int (msk ! i ! t)) [0..<T])"
      using scale_tokens_nth [OF hi [OF i] mi [OF i] _ j]
      by (intro arg_cong [where f = sum_list] map_cong) simp_all
    finally have num: "sum_dim0 (scale_tokens (hidden ! i) (msk ! i)) ! j
            = sum_list (map (\<lambda>t. hidden ! i ! t ! j * real_of_int (msk ! i ! t)) [0..<T])" .
    have "j < length (sum_dim0 (scale_tokens (hidden ! i) (msk ! i)))"
      using j sum_dim0_length [OF sm [OF i] Tpos [OF i]] by simp
    then have "?E ! i ! j = sum_dim0 (scale_tokens (hidden ! i) (msk ! i)) ! j
                              / real (unmasked_count (msk ! i))"
      by (simp only: row [OF i] nth_map)
    then show ?thesis
      by (simp only: num masked_average_def len)
  qed
  have ones: "?E ! i ! j = plain_average (hidden ! i) j"
    if a: "all_ones msk" and i: "i < B" and j: "j < H" for i j
  proof -
    have "list_all (\<lambda>x. x = 1) (msk ! i)"
      using a i lm by (simp add: all_ones_def list_all_length)
    moreover have "length (msk ! i) = length (hidden ! i)"
      using hi [OF i] mi [OF i] by (simp add: is_matrix_def)
    ultimately show ?thesis
      by (simp only: elem [OF i j] masked_average_all_ones)
  qed
  show ?thesis
    using mean_pooling_value [OF meth h m] shape elem ones by blast
qed

theorem mean_pooling_masked_average_witness:
  "sentence_pooling_method (example_model ''mean'' ''softmax'' 1 True) = ''mean'' \<and>
   is_tensor3 2 2 2 [[[1, 2], [3, 4]], [[5, 6], [7, 8::real]]] \<and>
   is_matrix 2 2 [[1, 1], [1, 0::int]] \<and>
   is_attention_mask [[1, 1], [1, 0]] \<and> every_row_unmasked [[1, 1], [1, 0]] \<and>
   (\<exists>E. sentence_embedding (example_model ''mean'' ''softmax'' 1 True)
          [[[1, 2], [3, 4]], [[5, 6], [7, 8]]] [[1, 1], [1, 0]] = Inr (Some E) \<and>
        is_matrix 2 2 E \<and>
        (\<forall>i<2. \<forall>j<2. E ! i ! j
           = masked_average ([[[1, 2], [3, 4]], [[5, 6], [7, 8]]] ! i) ([[1, 1], [1, 0]] ! i) j) \<and>
        (all_ones [[1, 1], [1, 0]] \<longrightarrow>
           (\<forall>i<2. \<forall>j<2. E ! i ! j = plain_average ([[[1, 2], [3, 4]], [[5, 6], [7, 8]]] ! i) j)))"
  using mean_pooling_masked_average
    [of "example_model ''mean'' ''softmax'' 1 True" 2 2 2
        "[[[1, 2], [3, 4]], [[5, 6], [7, 8]]]" "[[1, 1], [1, 0]]"]
  by (simp add: example_model_def is_tensor3_def is_matrix_def is_attention_mask_def
      every_row_unmasked_def)

section \<open>Loss engine: proofs\<close>

lemma cross_entropy_prob_shape:
  assumes S: "is_matrix B C S" and T: "is_matrix B C T"
  shows "cross_entropy_prob S T = Inr (map (\<lambda>(row, t). - dot t (log_softmax row)) (zip S T))"
proof -
  have "map length T = map length S"
    using S T by (auto simp: is_matrix_def list_all_length intro!: nth_equalityI)
  then show ?thesis by (simp add: cross_entropy_prob_def)
qed

lemma count_nonzero_zero: "count_nonzero l = 0 \<longleftrightarrow> list_all (\<lambda>x. x = 0) l"
  by (induction l) (simp_all add: count_nonzero_def)

lemma dot_zero_left: "list_all (\<lambda>x. x = 0) t \<Longrightarrow> dot t v = 0"
proof (induction t arbitrary: v)
  case Nil
  then show ?case by (simp add: dot_def)
next
  case (Cons a t)
  then show ?case by (cases v) (simp_all add: dot_def)
qed

lemma multi_softmax_all_zero:
  assumes "loss_type self = ''multi-softmax''" "cross_entropy_batch S T = Inr l"
    and "list_all (\<lambda>x. x = 0) l"
  shows "compute_loss cross_entropy_batch self S (Dense T) = Inr (Graph 0)"
  using assms count_nonzero_zero [of l]
  by (simp add: compute_loss_def bindE_def)

lemma multi_softmax_some_nonzero:
  assumes "loss_type self = ''multi-softmax''" "cross_entropy_batch S T = Inr l"
    and "\<not> list_all (\<lambda>x. x = 0) l"
  shows "0 < length (filter (\<lambda>x. x \<noteq> 0) l)"
    and "compute_loss cross_entropy_batch self S (Dense T)
           = Inr (Graph (sum_list l / real (length (filter (\<lambda>x. x \<noteq> 0) l))))"
proof -
  show pos: "0 < length (filter (\<lambda>x. x \<noteq> 0) l)"
    using assms(3) count_nonzero_zero [of l] by (simp add: count_nonzero_def)
  then show "compute_loss cross_entropy_batch self S (Dense T)
           = Inr (Graph (sum_list l / real (length (filter (\<lambda>x. x \<noteq> 0) l))))"
    using assms(1,2)
    by (simp add: compute_loss_def bindE_def count_nonzero_def div_count_def)
qed

text \<open>
  C3.  With loss type \<^verbatim>\<open>'multi-softmax'\<close> and a float target, whenever the
  library's unreduced cross entropy returns the per-example losses \<open>l\<close>: the loss
  is the sum of \<open>l\<close> divided by the number of nonzero entries of \<open>l\<close>, and that
  number is positive whenever the division is made, so nothing is divided by
  zero; when every entry of \<open>l\<close> is zero the result is zero.  In both cases the
  result is computed from the losses (\<open>Graph\<close>, neither a new leaf nor
  \<open>NonFinite\<close>), so it is part of the autograd graph.
\<close>

theorem multi_softmax_nonzero_mean:
  assumes lt: "loss_type self = ''multi-softmax''"
    and ce: "cross_entropy_batch S T = Inr l"
  shows "compute_loss cross_entropy_batch self S (Dense T) = Inr (Graph (nonzero_mean l)) \<and>
         (list_all (\<lambda>x. x = 0) l \<longrightarrow>
            compute_loss cross_entropy_batch self S (Dense T) = Inr (Graph 0)) \<and>
         (\<not> list_all (\<lambda>x. x = 0) l \<longrightarrow>
            0 < length (filter (\<lambda>x. x \<noteq> 0) l) \<and>
            compute_loss cross_entropy_batch self S (Dense T)
              = Inr (Graph (sum_list l / real (length (filter (\<lambda>x. x \<noteq> 0) l)))))"
proof -
  note zero = multi_softmax_all_zero
    [where cross_entropy_batch = cross_entropy_batch and S = S and T = T, OF lt ce]
  note nonz = multi_softmax_some_nonzero
    [where cross_entropy_batch = cross_entropy_batch and S = S and T = T, OF lt ce]
  have val: "compute_loss cross_entropy_batch self S (Dense T) = Inr (Graph (nonzero_mean l))"
    using zero nonz(2) by (cases "list_all (\<lambda>x. x = 0) l") (simp_all add: nonzero_mean_def)
  show ?thesis using val zero nonz by blast
qed

lemma multi_softmax_error:
  "loss_type self = ''multi-softmax'' \<Longrightarrow> cross_entropy_batch S T = Inl e \<Longrightarrow>
   compute_loss cross_entropy_batch self S (Dense T) = Inl e"
  by (simp add: compute_loss_def bindE_def)

theorem multi_softmax_nonzero_mean_witness:
  "loss_type (example_model ''cls'' ''multi-softmax'' 1 True) = ''multi-softmax'' \<and>
   cross_entropy_prob [[0, 0], [0, 0]] [[0, 0], [0, 0]] = Inr [0, 0] \<and>
   list_all (\<lambda>x. x = 0) [0, 0::real] \<and>
   compute_loss cross_entropy_prob (example_model ''cls'' ''multi-softmax'' 1 True)
       [[0, 0], [0, 0]] (Dense [[0, 0], [0, 0]]) = Inr (Graph 0) \<and>
   cross_entropy_prob [[0, 0], [0, 0]] [[1, 0], [0, 0]] = Inr [ln 2, 0] \<and>
   \<not> list_all (\<lambda>x. x = 0) [ln 2, 0::real] \<and>
   compute_loss cross_entropy_prob (example_model ''cls'' ''multi-softmax'' 1 True)
       [[0, 0], [0, 0]] (Dense [[1, 0], [0, 0]]) = Inr (Graph (ln 2))"
proof -
  have lt: "loss_type (example_model ''cls'' ''multi-softmax'' 1 True) = ''multi-softmax''"
    by (simp add: example_model_def)
  have z: "cross_entropy_prob [[0, 0], [0, 0]] [[0, 0], [0, 0]] = Inr [0, 0]"
    by (simp add: cross_entropy_prob_def dot_def log_softmax_def)
  have n: "cross_entropy_prob [[0, 0], [0, 0]] [[1, 0], [0, 0]] = Inr [ln 2, 0]"
    by (simp add: cross_entropy_prob_def dot_def log_softmax_def)
  show ?thesis
    using lt z n
      multi_softmax_nonzero_mean [where cross_entropy_batch = cross_entropy_prob
        and S = "[[0, 0], [0, 0]]" and T = "[[0, 0], [0, 0]]" and l = "[0, 0]", OF lt z]
      multi_softmax_nonzero_mean [where cross_entropy_batch = cross_entropy_prob
        and S = "[[0, 0], [0, 0]]" and T = "[[1, 0], [0, 0]]" and l = "[ln 2, 0]", OF lt n]
    by (simp add: nonzero_mean_def)
qed


lemma multi_softmax_zero_target:
  assumes "loss_type self = ''multi-softmax''" "is_matrix B C S" "is_matrix B C T"
    and "list_all (list_all (\<lambda>x. x = 0)) T"
  shows "compute_loss cross_entropy_prob self S (Dense T) = Inr (Graph 0)"
proof -
  let ?l = "map (\<lambda>(row, t). - dot t (log_softmax row)) (zip S T)"
  have "dot t (log_softmax row) = 0" if "(row, t) \<in> set (zip S T)" for row t
  proof -
    have "t \<in> set T" using that by (rule set_zip_rightD)
    then have "list_all (\<lambda>x. x = 0) t"
      using assms(4) by (simp add: list_all_iff)
    then show ?thesis by (rule dot_zero_left)
  qed
  then have "list_all (\<lambda>x. x = 0) ?l" by (auto simp: list_all_iff)
  then show ?thesis
    by (rule multi_softmax_all_zero [where cross_entropy_batch = cross_entropy_prob
          and S = S and T = T, OF assms(1) cross_entropy_prob_shape [OF assms(2,3)]])
qed

lemma select_fst:
  "length xs = length ys \<Longrightarrow>
   map fst (filter snd (zip xs (map p ys))) = map fst (filter (\<lambda>(x, y). p y) (zip xs ys))"
  by (induction xs ys rule: list_induct2) simp_all

lemma select_snd:
  "length xs = length ys \<Longrightarrow>
   map fst (filter snd (zip ys (map p ys))) = map snd (filter (\<lambda>(x, y). p y) (zip xs ys))"
  by (induction xs ys rule: list_induct2) simp_all

lemma softmax_length: "length (softmax s) = length s"
  by (simp add: softmax_def)

lemma myloss_products:
  assumes "\<And>s t. (s, t) \<in> set kept \<Longrightarrow> length s = length t"
  shows "broadcast2 (broadcast2 (\<lambda>a b. Inr (a * b))) (map softmax (map fst kept)) (map snd kept)
           = Inr (map (\<lambda>(s, t). map (\<lambda>(x, y). x * y) (zip (softmax s) t)) kept)"
proof -
  have z: "zip (map softmax (map fst kept)) (map snd kept) = map (\<lambda>(s, t). (softmax s, t)) kept"
    by (induction kept) auto
  have "broadcast2 (broadcast2 (\<lambda>a b. Inr (a * b))) (map softmax (map fst kept)) (map snd kept)
          = Inr (map (\<lambda>(a, b). map (\<lambda>(x, y). x * y) (zip a b))
                   (zip (map softmax (map fst kept)) (map snd kept)))"
  proof (rule broadcast2_zip)
    show "length (map softmax (map fst kept)) = length (map snd kept)" by simp
    fix a b assume "(a, b) \<in> set (zip (map softmax (map fst kept)) (map snd kept))"
    then obtain s where "(s, b) \<in> set kept" "a = softmax s"
      unfolding z by auto
    then have "length a = length b"
      using assms by (simp add: softmax_length)
    then show "broadcast2 (\<lambda>a b. Inr (a * b)) a b = Inr (map (\<lambda>(x, y). x * y) (zip a b))"
      by (rule broadcast2_zip) simp
  qed
  also have "map (\<lambda>(a, b). map (\<lambda>(x, y). x * y) (zip a b))
                (zip (map softmax (map fst kept)) (map snd kept))
              = map (\<lambda>(s, t). map (\<lambda>(x, y). x * y) (zip (softmax s) t)) kept"
    unfolding z by (induction kept) auto
  finally show ?thesis .
qed

text \<open>
  C4.  With loss type \<^verbatim>\<open>'myloss'\<close>, scores and target of one shape \<open>B \<times> C\<close>: the loss
  is the mean, over the rows whose target row-sum is positive, of minus the
  logarithm of the softmax-target dot product clamped to \<open>[1e-9, 1]\<close>; when no row
  has a positive row-sum it is a new tensor of value zero with gradient tracking.
\<close>

theorem myloss_positive_mass:
  assumes lt: "loss_type self = ''myloss''"
    and S: "is_matrix B C S" and T: "is_matrix B C T"
  shows "compute_loss ce self S (Dense T) = Inr (myloss_spec S T) \<and>
         (list_all (\<lambda>t. \<not> 0 < sum_list t) T \<longrightarrow>
            compute_loss ce self S (Dense T) = Inr (Leaf 0 True))"
proof -
  let ?p = "\<lambda>r::real list. 0 < sum_list r"
  let ?kept = "filter (\<lambda>(s, t). ?p t) (zip S T)"
  have len: "length S = length T"
    using S T by (simp add: is_matrix_def)
  have vs: "mask_select S (map ?p T) = Inr (map fst ?kept)"
    using len by (simp add: mask_select_def select_fst)
  have vt: "mask_select T (map ?p T) = Inr (map snd ?kept)"
    using select_snd [OF len, of ?p] by (simp add: mask_select_def)
  have rows: "length s = length t" if "(s, t) \<in> set ?kept" for s t
  proof -
    have "(s, t) \<in> set (zip S T)" using that by simp
    then obtain i where "i < B" "s = S ! i" "t = T ! i"
      using S by (auto simp: set_zip is_matrix_def)
    then show ?thesis
      using is_matrix_nth [OF S] is_matrix_nth [OF T] by simp
  qed
  have prod: "broadcast2 (broadcast2 (\<lambda>a b. Inr (a * b))) (map softmax (map fst ?kept)) (map snd ?kept)
                = Inr (map (\<lambda>(s, t). map (\<lambda>(x, y). x * y) (zip (softmax s) t)) ?kept)"
    by (rule myloss_products) (rule rows)
  have val: "compute_loss ce self S (Dense T) = Inr (myloss_spec S T)"
    apply (simp add: compute_loss_def lt Let_def)
    apply (simp only: vs vt bindE_def sum.case Let_def)
    apply (simp only: prod sum.case)
    apply (simp add: myloss_spec_def myloss_row_def [abs_def] dot_def case_prod_unfold comp_def)
    done
  have none: "compute_loss ce self S (Dense T) = Inr (Leaf 0 True)"
    if "list_all (\<lambda>t. \<not> 0 < sum_list t) T"
  proof -
    have "?kept = []"
      using that by (auto simp: filter_empty_conv list_all_iff dest: set_zip_rightD)
    then show ?thesis
      by (simp add: val myloss_spec_def)
  qed
  show ?thesis using val none by blast
qed

theorem myloss_positive_mass_witness:
  "loss_type (example_model ''cls'' ''myloss'' 1 True) = ''myloss'' \<and>
   is_matrix 2 2 [[0, 0], [3, 1::real]] \<and> is_matrix 2 2 [[1, 0], [0, 0::real]] \<and>
   compute_loss cross_entropy_prob (example_model ''cls'' ''myloss'' 1 True) [[0, 0], [3, 1]]
       (Dense [[1, 0], [0, 0]])
     = Inr (myloss_spec [[0, 0], [3, 1]] [[1, 0], [0, 0]]) \<and>
   myloss_spec [[0, 0], [3, 1]] [[1, 0], [0, 0]] = Graph (ln 2)"
  using myloss_positive_mass
    [of "example_model ''cls'' ''myloss'' 1 True" 2 2 "[[0, 0], [3, 1]]" "[[1, 0], [0, 0]]"
        cross_entropy_prob]
  by (simp add: example_model_def is_matrix_def myloss_spec_def myloss_row_def softmax_def
      dot_def clamp_def mean_def ln_div)

section \<open>Cross-device gather: proofs\<close>

text \<open>
  C8.  With a world size of one (and the rank 0 that goes with it) the gather
  returns its input tensor unchanged, and \<^verbatim>\<open>None\<close> passes through as \<^verbatim>\<open>None\<close>.
\<close>

theorem gather_single_process:
  "world_size self = Some 1 \<Longrightarrow> process_rank self = Some 0 \<Longrightarrow>
   dist_gather_tensor self env (Some t) = Inr (Some t) \<and>
   dist_gather_tensor self env None = Inr None"
  by (simp add: dist_gather_tensor_def require_tensor_def bindE_def list_setitem_def cat_dim0_def)

theorem gather_single_process_witness:
  "world_size ((example_model ''cls'' ''softmax'' 1 True)
       \<lparr> negatives_x_device := True, process_rank := Some 0, world_size := Some 1 \<rparr>) = Some 1 \<and>
   process_rank ((example_model ''cls'' ''softmax'' 1 True)
       \<lparr> negatives_x_device := True, process_rank := Some 0, world_size := Some 1 \<rparr>) = Some 0 \<and>
   dist_gather_tensor ((example_model ''cls'' ''softmax'' 1 True)
       \<lparr> negatives_x_device := True, process_rank := Some 0, world_size := Some 1 \<rparr>)
     single_process_env (Some [[1, 2], [3, 4]]) = Inr (Some [[1, 2], [3, 4]]) \<and>
   dist_gather_tensor ((example_model ''cls'' ''softmax'' 1 True)
       \<lparr> negatives_x_device := True, process_rank := Some 0, world_size := Some 1 \<rparr>)
     single_process_env None = Inr None"
  using gather_single_process
    [of "(example_model ''cls'' ''softmax'' 1 True)
           \<lparr> negatives_x_device := True, process_rank := Some 0, world_size := Some 1 \<rparr>"
        single_process_env "[[1, 2], [3, 4]]"]
  by (simp add: example_model_def)

section \<open>Hinge loss of the multi-encoder variant: proofs\<close>

lemma concat_same_length:
  "map length S = map length T \<Longrightarrow> length (concat S) = length (concat T)"
  by (simp add: length_concat)

lemma is_matrix_same_lengths:
  "is_matrix B C S \<Longrightarrow> is_matrix B C T \<Longrightarrow> map length S = map length T"
  by (auto simp: is_matrix_def list_all_length intro!: nth_equalityI)

lemma hinge_value:
  assumes S: "is_matrix B C S" and T: "is_matrix B C T"
  shows "MultiBiEncoderModel_compute_loss S T
           = Inr (Graph (mean (map (\<lambda>(s, t). hinge_elem (1 / 2) (1 - s) (t * 2 - 1))
                   (zip (flatten S) (flatten T)))))"
proof -
  let ?d = "flatten (map (map (\<lambda>s. 1 - s)) S)"
  let ?t = "flatten (map (map (\<lambda>t. t * 2 - 1)) T)"
  have len: "length ?d = length ?t"
    using concat_same_length [OF is_matrix_same_lengths [OF S T]]
    by (simp add: flatten_def map_concat [symmetric])
  have d: "?d = map (\<lambda>s. 1 - s) (flatten S)" and t: "?t = map (\<lambda>t. t * 2 - 1) (flatten T)"
    by (simp_all add: flatten_def map_concat)
  have "broadcast2 (\<lambda>x y. Inr (hinge_elem (1 / 2) x y)) ?d ?t
          = Inr (map (\<lambda>(x, y). hinge_elem (1 / 2) x y) (zip ?d ?t))"
    using len by (rule broadcast2_zip) simp
  also have "map (\<lambda>(x, y). hinge_elem (1 / 2) x y) (zip ?d ?t)
               = map (\<lambda>(s, t). hinge_elem (1 / 2) (1 - s) (t * 2 - 1)) (zip (flatten S) (flatten T))"
    unfolding d t by (simp add: zip_map_map case_prod_unfold)
  finally show ?thesis
    by (simp add: MultiBiEncoderModel_compute_loss_def hinge_embedding_loss_def bindE_def Let_def)
qed


lemma mean_zeros: "list_all (\<lambda>x. x = 0) xs \<Longrightarrow> mean xs = 0"
proof -
  assume "list_all (\<lambda>x. x = 0) xs"
  then have "sum_list xs = 0" by (induction xs) simp_all
  then show ?thesis by (simp add: mean_def)
qed

lemma flatten_all: "list_all (list_all P) m \<Longrightarrow> list_all P (flatten m)"
  by (induction m) (simp_all add: flatten_def)

lemma is_matrix_flatten_length: "is_matrix B C m \<Longrightarrow> length (flatten m) = B * C"
proof -
  assume "is_matrix B C m"
  then have "map length m = replicate B C"
    by (auto simp: is_matrix_def list_all_length intro!: nth_equalityI)
  then show ?thesis by (simp add: flatten_def length_concat sum_list_replicate)
qed

text \<open>
  C9.  For scores and target of one non-empty shape \<open>B \<times> C\<close>, the loss of the
  multi-encoder variant is the mean-reduced hinge embedding loss with margin
  \<open>1/2\<close> of the flattened distances \<open>1 - S\<close> against the flattened labels
  \<open>T * 2 - 1\<close>, taken over all \<open>B * C\<close> entries; for a 0/1 target it is the
  documented hinge formula; and when \<open>S\<close> and \<open>T\<close> are one everywhere it is zero.
\<close>

theorem hinge_loss_flattened:
  assumes S: "is_matrix B C S" and T: "is_matrix B C T" and ne: "0 < B" "0 < C"
  shows "(\<exists>v. MultiBiEncoderModel_compute_loss S T = Inr (Graph v) \<and>
              hinge_embedding_loss (1 / 2) (flatten (map (map (\<lambda>s. 1 - s)) S))
                 (flatten (map (map (\<lambda>t. t * 2 - 1)) T)) = Inr v \<and>
              v = mean (map (\<lambda>(s, t). hinge_elem (1 / 2) (1 - s) (t * 2 - 1))
                     (zip (flatten S) (flatten T))) \<and>
              (list_all (list_all (\<lambda>x. x = 0 \<or> x = 1)) T \<longrightarrow>
                 v = mean (map (\<lambda>(s, t). hinge_documented (1 / 2) (1 - s) (t * 2 - 1))
                       (zip (flatten S) (flatten T))))) \<and>
         0 < length (flatten S) \<and>
         (list_all (list_all (\<lambda>x. x = 1)) S \<and> list_all (list_all (\<lambda>x. x = 1)) T \<longrightarrow>
            MultiBiEncoderModel_compute_loss S T = Inr (Graph 0))"
proof -
  let ?v = "mean (map (\<lambda>(s, t). hinge_elem (1 / 2) (1 - s) (t * 2 - 1)) (zip (flatten S) (flatten T)))"
  have val: "MultiBiEncoderModel_compute_loss S T = Inr (Graph ?v)"
    by (rule hinge_value [OF S T])
  then have h: "hinge_embedding_loss (1 / 2) (flatten (map (map (\<lambda>s. 1 - s)) S))
                  (flatten (map (map (\<lambda>t. t * 2 - 1)) T)) = Inr ?v"
    by (auto simp: MultiBiEncoderModel_compute_loss_def Let_def bindE_def split: sum.splits)
  have doc: "?v = mean (map (\<lambda>(s, t). hinge_documented (1 / 2) (1 - s) (t * 2 - 1))
                     (zip (flatten S) (flatten T)))"
    if "list_all (list_all (\<lambda>x. x = 0 \<or> x = 1)) T"
  proof -
    have "list_all (\<lambda>x. x = 0 \<or> x = 1) (flatten T)"
      by (rule flatten_all [OF that])
    then have "hinge_elem (1 / 2) (1 - s) (t * 2 - 1) = hinge_documented (1 / 2) (1 - s) (t * 2 - 1)"
      if "(s, t) \<in> set (zip (flatten S) (flatten T))" for s t
      using set_zip_rightD [OF that]
      by (auto simp: list_all_iff hinge_elem_def hinge_documented_def)
    then have "map (\<lambda>(s, t). hinge_elem (1 / 2) (1 - s) (t * 2 - 1)) (zip (flatten S) (flatten T))
                 = map (\<lambda>(s, t). hinge_documented (1 / 2) (1 - s) (t * 2 - 1))
                     (zip (flatten S) (flatten T))"
      by (intro map_cong) auto
    then show ?thesis by (rule arg_cong)
  qed
  have ones: "MultiBiEncoderModel_compute_loss S T = Inr (Graph 0)"
    if "list_all (list_all (\<lambda>x. x = 1)) S \<and> list_all (list_all (\<lambda>x. x = 1)) T"
  proof -
    have "list_all (\<lambda>x. x = 1) (flatten S)" "list_all (\<lambda>x. x = 1) (flatten T)"
      using that by (simp_all add: flatten_all)
    then have "hinge_elem (1 / 2) (1 - s) (t * 2 - 1) = 0"
      if "(s, t) \<in> set (zip (flatten S) (flatten T))" for s t
      using set_zip_leftD [OF that] set_zip_rightD [OF that]
      by (auto simp: list_all_iff hinge_elem_def)
    then have "list_all (\<lambda>x. x = 0)
        (map (\<lambda>(s, t). hinge_elem (1 / 2) (1 - s) (t * 2 - 1)) (zip (flatten S) (flatten T)))"
      by (auto simp: list_all_iff)
    then have "?v = 0" by (rule mean_zeros)
    then show ?thesis by (simp only: val)
  qed
  show ?thesis
    using val h doc ones is_matrix_flatten_length [OF S] ne by simp
qed


theorem hinge_loss_flattened_witness:
  "is_matrix 1 2 [[1, 1::real]] \<and> is_matrix 1 2 [[1, 1::real]] \<and> (0::nat) < 1 \<and> (0::nat) < 2 \<and>
   MultiBiEncoderModel_compute_loss [[1, 1]] [[1, 1]] = Inr (Graph 0)"
  using hinge_loss_flattened [of 1 2 "[[1, 1]]" "[[1, 1]]"]
  by (simp add: is_matrix_def flatten_def hinge_documented_def mean_def)


section \<open>Forward pass and configuration: proofs\<close>

lemma matmul_transposed_value:
  assumes "is_matrix Q D qr" "is_matrix P D pr"
  shows "matmul_transposed qr pr = Inr (map (\<lambda>qi. map (\<lambda>pj. dot qi pj) pr) qr)"
  unfolding matmul_transposed_def
proof (rule mapE_Inr)
  fix qi assume "qi \<in> set qr"
  then have q: "length qi = D" using assms(1) by (simp add: is_matrix_def list_all_iff)
  show "mapE (\<lambda>pj. if length qi = length pj then Inr (dot qi pj) else Inl RuntimeError) pr
          = Inr (map (\<lambda>pj. dot qi pj) pr)"
  proof (rule mapE_Inr)
    fix pj assume "pj \<in> set pr"
    then have "length pj = D" using assms(2) by (simp add: is_matrix_def list_all_iff)
    then show "(if length qi = length pj then Inr (dot qi pj) else Inl RuntimeError) = Inr (dot qi pj)"
      using q by simp
  qed
qed

text \<open>
  C10.  Outside training mode, with both inputs present and encoded to \<open>qr\<close>
  (\<open>Q \<times> D\<close>) and \<open>pr\<close> (\<open>P \<times> D\<close>), \<^verbatim>\<open>forward\<close> returns the matrix of dot products
  of the rows of \<open>qr\<close> with the rows of \<open>pr\<close> as scores, not divided by the
  temperature and not reshaped, and no loss.
\<close>

theorem forward_eval_raw_similarity:
  assumes "\<not> training self"
    and "encode_query self (Some qry) = Inr (Some qr)"
    and "encode_passage self (Some psg) = Inr (Some pr)"
    and "is_matrix Q D qr" and "is_matrix P D pr"
  shows "forward ce self env (Some qry) (Some psg) ts
           = Inr \<lparr> q_reps = Some qr, p_reps = Some pr, loss = None,
                   scores = Some (map (\<lambda>qi. map (\<lambda>pj. dot qi pj) pr) qr) \<rparr>"
  using assms(1,2,3) matmul_transposed_value [OF assms(4,5)]
  by (simp add: forward_def bindE_def compute_similarity_def)


lemma encode_cls_example:
  "encode_query (example_model ''cls'' lt temp train)
       (Some \<lparr> input_ids = [[7]], attention_mask = [[1]] \<rparr>) = Inr (Some [[1]])"
  "encode_passage (example_model ''cls'' lt temp train)
       (Some \<lparr> input_ids = [[7]], attention_mask = [[1]] \<rparr>) = Inr (Some [[1]])"
  by (simp_all add: encode_query_def encode_passage_def example_model_def constant_encoder_def
      sentence_embedding_def bindE_def require_tensor_def)

theorem forward_eval_raw_similarity_witness:
  "\<not> training (example_model ''cls'' ''softmax'' 2 False) \<and>
   encode_query (example_model ''cls'' ''softmax'' 2 False)
       (Some \<lparr> input_ids = [[7]], attention_mask = [[1]] \<rparr>) = Inr (Some [[1]]) \<and>
   encode_passage (example_model ''cls'' ''softmax'' 2 False)
       (Some \<lparr> input_ids = [[7]], attention_mask = [[1]] \<rparr>) = Inr (Some [[1]]) \<and>
   is_matrix 1 1 [[1::real]] \<and>
   forward cross_entropy_prob (example_model ''cls'' ''softmax'' 2 False) single_process_env
       (Some \<lparr> input_ids = [[7]], attention_mask = [[1]] \<rparr>)
       (Some \<lparr> input_ids = [[7]], attention_mask = [[1]] \<rparr>) None
     = Inr \<lparr> q_reps = Some [[1]], p_reps = Some [[1]], loss = None, scores = Some [[1]] \<rparr>"
proof -
  have t: "\<not> training (example_model ''cls'' ''softmax'' 2 False)"
    by (simp add: example_model_def)
  have m: "is_matrix 1 1 [[1::real]]"
    by (simp add: is_matrix_def)
  show ?thesis
    using t m encode_cls_example [of "''softmax''" 2 False]
      forward_eval_raw_similarity [OF t encode_cls_example [of "''softmax''" 2 False] m m,
        of cross_entropy_prob single_process_env None]
    by (simp add: dot_def)
qed

text \<open>
  C5.  The code at an unrecognised pooling method: \<^verbatim>\<open>sentence_embedding\<close> with the
  method \<^verbatim>\<open>'max'\<close> raises nothing and returns \<^verbatim>\<open>None\<close>; the failure comes later and
  from elsewhere, as the AttributeError of \<^verbatim>\<open>None.contiguous()\<close> in \<^verbatim>\<open>encode_query\<close>.
  The sibling chain in \<^verbatim>\<open>compute_loss\<close> does end in a failing \<^verbatim>\<open>else\<close>: an
  unrecognised loss type is an AssertionError.
\<close>

theorem pooling_unknown_method_returns_none:
  "sentence_embedding (example_model ''max'' ''softmax'' 1 True) [[[1, 2], [3, 4]]] [[1, 1]]
     = Inr None \<and>
   encode_query (example_model ''max'' ''softmax'' 1 True)
       (Some \<lparr> input_ids = [[7]], attention_mask = [[1]] \<rparr>) = Inl AttributeError \<and>
   compute_loss cross_entropy_prob (example_model ''cls'' ''hinge'' 1 True) [[1]] (Dense [[1]])
     = Inl AssertionError"
  by (simp add: sentence_embedding_def encode_query_def example_model_def bindE_def
      require_tensor_def compute_loss_def)

lemma sentence_embedding_other_method:
  "sentence_pooling_method self \<noteq> ''mean'' \<Longrightarrow> sentence_pooling_method self \<noteq> ''cls'' \<Longrightarrow>
   sentence_embedding self hidden msk = Inr None"
  by (simp add: sentence_embedding_def)

text \<open>
  C6, as stated, fails: the constructor accepts the temperatures \<open>-1\<close> and \<open>0\<close>
  and returns the model, and a training \<^verbatim>\<open>forward\<close> at temperature \<open>-1\<close> returns
  scores and a loss without any error.
\<close>

theorem temperature_unchecked_counterexample:
  "BiEncoderModel_init single_process_env (constant_encoder [[[1]]]) (constant_encoder [[[1]]])
       None False False ''cls'' False (- 1) 1 ''softmax''
     = Inr (example_model ''cls'' ''softmax'' (- 1) True) \<and>
   BiEncoderModel_init single_process_env (constant_encoder [[[1]]]) (constant_encoder [[[1]]])
       None False False ''cls'' False 0 1 ''softmax''
     = Inr (example_model ''cls'' ''softmax'' 0 True) \<and>
   forward cross_entropy_prob (example_model ''cls'' ''softmax'' (- 1) True) single_process_env
       (Some \<lparr> input_ids = [[7]], attention_mask = [[1]] \<rparr>)
       (Some \<lparr> input_ids = [[7]], attention_mask = [[1]] \<rparr>) None
     = Inr \<lparr> q_reps = Some [[1]], p_reps = Some [[1]], loss = Some (Graph 0),
             scores = Some [[- 1]] \<rparr>"
proof -
  have "forward cross_entropy_prob (example_model ''cls'' ''softmax'' (- 1) True) single_process_env
       (Some \<lparr> input_ids = [[7]], attention_mask = [[1]] \<rparr>)
       (Some \<lparr> input_ids = [[7]], attention_mask = [[1]] \<rparr>) None
     = Inr \<lparr> q_reps = Some [[1]], p_reps = Some [[1]], loss = Some (Graph 0),
             scores = Some [[- 1]] \<rparr>"
    by (simp add: forward_def encode_cls_example bindE_def)
       (simp add: example_model_def gather_if_x_device_def compute_similarity_def
          matmul_transposed_def bindE_def dot_def view_rows_def implicit_target_def arange_def
          compute_loss_def cross_entropy_index_def log_softmax_def mean_def)
  then show ?thesis
    by (simp add: BiEncoderModel_init_def example_model_def)
qed

lemma concat_row:
  "is_matrix Q P m \<Longrightarrow> i < Q \<Longrightarrow> take P (drop (i * P) (concat m)) = m ! i"
proof (induction m arbitrary: i Q)
  case Nil
  then show ?case by (simp add: is_matrix_def)
next
  case (Cons r m)
  have r: "length r = P" using Cons.prems(1) by (simp add: is_matrix_def)
  show ?case
  proof (cases i)
    case 0
    then show ?thesis using r by simp
  next
    case (Suc k)
    have m: "is_matrix (length m) P m" using Cons.prems(1) by (simp add: is_matrix_def)
    have k: "k < length m" using Cons.prems Suc by (auto simp: is_matrix_def)
    show ?thesis
      using Cons.IH [OF m k] r Suc by simp
  qed
qed

lemma view_rows_same:
  assumes m: "is_matrix Q P m" and Q: "0 < Q"
  shows "view_rows Q m = Inr m"
proof -
  have len: "length (concat m) = Q * P"
    using is_matrix_flatten_length [OF m] by (simp add: flatten_def)
  have "map (\<lambda>i. take P (drop (i * P) (concat m))) [0..<Q] = m"
    using m by (intro nth_equalityI) (simp_all add: concat_row [OF m] is_matrix_def)
  then show ?thesis
    using Q by (simp add: view_rows_def len Let_def)
qed


lemma implicit_index_bound:
  assumes "i < Q" "0 < P"
  shows "i * (P div Q) < (P::nat)"
proof (cases "P div Q = 0")
  case True
  then show ?thesis using assms(2) by simp
next
  case False
  have "i * (P div Q) < Q * (P div Q)"
    using assms(1) False by simp
  also have "\<dots> \<le> P" by simp
  finally show ?thesis .
qed

lemma cross_entropy_index_implicit:
  assumes sc: "is_matrix Q P sc" and P: "0 < P"
  shows "\<exists>l. cross_entropy_index sc (map (\<lambda>i. i * (P div Q)) [0..<Q]) = Inr l"
proof -
  let ?tgt = "map (\<lambda>i. i * (P div Q)) [0..<Q]"
  have len: "length ?tgt = length sc" using sc by (simp add: is_matrix_def)
  have "mapE (\<lambda>(row, c). if c < length row then Inr (- (log_softmax row ! c)) else Inl IndexError)
            (zip sc ?tgt)
          = Inr (map (\<lambda>(row, c). - (log_softmax row ! c)) (zip sc ?tgt))"
  proof (rule mapE_Inr)
    fix x assume "x \<in> set (zip sc ?tgt)"
    then obtain i where i: "i < Q" "x = (sc ! i, i * (P div Q))"
      using sc by (auto simp: set_zip is_matrix_def)
    have "length (sc ! i) = P" by (rule is_matrix_nth [OF sc i(1)])
    then show "(case x of (row, c) \<Rightarrow>
                  if c < length row then Inr (- (log_softmax row ! c)) else Inl IndexError)
               = Inr (case x of (row, c) \<Rightarrow> - (log_softmax row ! c))"
      using implicit_index_bound [OF i(1) P] i(2) by simp
  qed
  then show ?thesis
    using len by (simp add: cross_entropy_index_def)
qed

lemma forward_training_softmax:
  assumes tr: "training self" and nx: "\<not> negatives_x_device self"
    and lt: "loss_type self = ''softmax''" and t0: "temperature self \<noteq> 0"
    and eq: "encode_query self (Some qry) = Inr (Some qr)"
    and ep: "encode_passage self (Some psg) = Inr (Some pr)"
    and mq: "is_matrix Q D qr" and mp: "is_matrix P D pr" and Q: "0 < Q" and P: "0 < P"
  shows "\<exists>l. forward ce self env (Some qry) (Some psg) None
           = Inr \<lparr> q_reps = Some qr, p_reps = Some pr, loss = Some (Graph l),
                   scores = Some (map (\<lambda>qi. map (\<lambda>pj. dot qi pj / temperature self) pr) qr) \<rparr>"
proof -
  let ?sc = "map (\<lambda>qi. map (\<lambda>pj. dot qi pj / temperature self) pr) qr"
  have lq: "length qr = Q" and lp: "length pr = P"
    using mq mp by (simp_all add: is_matrix_def)
  have sim: "compute_similarity self qr pr = Inr (map (\<lambda>qi. map (\<lambda>pj. dot qi pj) pr) qr)"
    unfolding compute_similarity_def by (rule matmul_transposed_value [OF mq mp])
  have scaled: "map (map (\<lambda>x. x / temperature self)) (map (\<lambda>qi. map (\<lambda>pj. dot qi pj) pr) qr) = ?sc"
    by (simp add: comp_def)
  have shape: "is_matrix Q P ?sc"
    using lq lp by (simp add: is_matrix_def list_all_iff)
  have view: "view_rows (length qr) ?sc = Inr ?sc"
    unfolding lq by (rule view_rows_same [OF shape Q])
  have tgt: "implicit_target (length ?sc) (length pr) (length qr)
               = Inr (map (\<lambda>i. i * (P div Q)) [0..<Q])"
    using Q by (simp add: implicit_target_def arange_def lq lp)
  obtain l where l: "cross_entropy_index ?sc (map (\<lambda>i. i * (P div Q)) [0..<Q]) = Inr l"
    using cross_entropy_index_implicit [OF shape P] by blast
  have loss: "compute_loss ce self ?sc (ClassIndex (map (\<lambda>i. i * (P div Q)) [0..<Q]))
                = Inr (Graph (mean l))"
    by (simp add: compute_loss_def lt l bindE_def)
  have "forward ce self env (Some qry) (Some psg) None
          = Inr \<lparr> q_reps = Some qr, p_reps = Some pr, loss = Some (Graph (mean l)),
                  scores = Some ?sc \<rparr>"
    unfolding forward_def
    by (simp only: eq ep bindE_def sum.case option.case prod.case tr if_True
        gather_if_x_device_def nx if_False sim Let_def scaled view tgt loss)
  then show ?thesis by blast
qed


lemma init_fields:
  assumes "BiEncoderModel_init env lq lp pl ue nm spm nx temp clw lt = Inr self"
  shows "temperature self = temp" "training self" "negatives_x_device self = nx"
    "loss_type self = lt"
  using assms by (auto simp: BiEncoderModel_init_def Let_def split: if_splits)

text \<open>
  C6, amended.  No temperature is checked, neither at construction nor in a run.
  The constructor raises exactly when the negative gather is requested while the
  distributed runtime is not initialised, and then it raises ValueError;
  otherwise it returns, for every temperature, also zero or negative, a model
  that stores the value unchanged.  A training call of \<^verbatim>\<open>forward\<close> on that model
  (softmax loss, no teacher scores, no cross-device gather, non-empty query and
  passage batches of one embedding width) with a nonzero temperature, also a
  negative one, raises nothing: it returns the similarity divided by the
  temperature as scores, and a loss.
\<close>

theorem temperature_never_checked:
  "(nx \<and> \<not> is_initialized env \<longrightarrow>
      BiEncoderModel_init env lq lp pl ue nm spm nx temp clw lt = Inl ValueError) \<and>
   (\<not> (nx \<and> \<not> is_initialized env) \<longrightarrow>
      (\<exists>self. BiEncoderModel_init env lq lp pl ue nm spm nx temp clw lt = Inr self \<and>
         temperature self = temp \<and>
         (\<not> nx \<and> lt = ''softmax'' \<and> temp \<noteq> 0 \<and>
          encode_query self (Some qry) = Inr (Some qr) \<and>
          encode_passage self (Some psg) = Inr (Some pr) \<and>
          is_matrix Q D qr \<and> is_matrix P D pr \<and> 0 < Q \<and> 0 < P \<longrightarrow>
            (\<exists>l. forward ce self env (Some qry) (Some psg) None
               = Inr \<lparr> q_reps = Some qr, p_reps = Some pr, loss = Some (Graph l),
                       scores = Some (map (\<lambda>qi. map (\<lambda>pj. dot qi pj / temp) pr) qr) \<rparr>))))"
proof (intro conjI impI)
  assume "nx \<and> \<not> is_initialized env"
  then show "BiEncoderModel_init env lq lp pl ue nm spm nx temp clw lt = Inl ValueError"
    by (simp add: BiEncoderModel_init_def Let_def)
next
  assume "\<not> (nx \<and> \<not> is_initialized env)"
  then have "\<exists>self. BiEncoderModel_init env lq lp pl ue nm spm nx temp clw lt = Inr self"
    by (cases nx) (simp_all add: BiEncoderModel_init_def Let_def)
  then obtain self where init: "BiEncoderModel_init env lq lp pl ue nm spm nx temp clw lt = Inr self"
    by blast
  note f = init_fields [OF init]
  have run: "\<exists>l. forward ce self env (Some qry) (Some psg) None
               = Inr \<lparr> q_reps = Some qr, p_reps = Some pr, loss = Some (Graph l),
                       scores = Some (map (\<lambda>qi. map (\<lambda>pj. dot qi pj / temp) pr) qr) \<rparr>"
    if h: "\<not> nx \<and> lt = ''softmax'' \<and> temp \<noteq> 0 \<and>
          encode_query self (Some qry) = Inr (Some qr) \<and>
          encode_passage self (Some psg) = Inr (Some pr) \<and>
          is_matrix Q D qr \<and> is_matrix P D pr \<and> 0 < Q \<and> 0 < P"
    using forward_training_softmax [of self qry qr psg pr Q D P ce env] f h by simp
  show "\<exists>self. BiEncoderModel_init env lq lp pl ue nm spm nx temp clw lt = Inr self \<and>
         temperature self = temp \<and>
         (\<not> nx \<and> lt = ''softmax'' \<and> temp \<noteq> 0 \<and>
          encode_query self (Some qry) = Inr (Some qr) \<and>
          encode_passage self (Some psg) = Inr (Some pr) \<and>
          is_matrix Q D qr \<and> is_matrix P D pr \<and> 0 < Q \<and> 0 < P \<longrightarrow>
            (\<exists>l. forward ce self env (Some qry) (Some psg) None
               = Inr \<lparr> q_reps = Some qr, p_reps = Some pr, loss = Some (Graph l),
                       scores = Some (map (\<lambda>qi. map (\<lambda>pj. dot qi pj / temp) pr) qr) \<rparr>))"
    using init f(1) run by blast
qed

theorem temperature_never_checked_witness:
  "\<not> is_initialized single_process_env \<and>
   BiEncoderModel_init single_process_env (constant_encoder [[[1]]]) (constant_encoder [[[1]]])
       None False False ''cls'' True (- 1) 1 ''softmax'' = Inl ValueError \<and>
   BiEncoderModel_init single_process_env (constant_encoder [[[1]]]) (constant_encoder [[[1]]])
       None False False ''cls'' False (- 1) 1 ''softmax''
     = Inr (example_model ''cls'' ''softmax'' (- 1) True) \<and>
   temperature (example_model ''cls'' ''softmax'' (- 1) True) = - 1 \<and>
   (- 1 :: real) \<noteq> 0 \<and>
   encode_query (example_model ''cls'' ''softmax'' (- 1) True)
       (Some \<lparr> input_ids = [[7]], attention_mask = [[1]] \<rparr>) = Inr (Some [[1]]) \<and>
   encode_passage (example_model ''cls'' ''softmax'' (- 1) True)
       (Some \<lparr> input_ids = [[7]], attention_mask = [[1]] \<rparr>) = Inr (Some [[1]]) \<and>
   is_matrix 1 1 [[1::real]] \<and> (0::nat) < 1 \<and>
   (\<exists>l. forward cross_entropy_prob (example_model ''cls'' ''softmax'' (- 1) True)
          single_process_env
          (Some \<lparr> input_ids = [[7]], attention_mask = [[1]] \<rparr>)
          (Some \<lparr> input_ids = [[7]], attention_mask = [[1]] \<rparr>) None
        = Inr \<lparr> q_reps = Some [[1]], p_reps = Some [[1]], loss = Some (Graph l),
                scores = Some [[- 1]] \<rparr>)"
proof -
  have a: "BiEncoderModel_init single_process_env (constant_encoder [[[1]]])
       (constant_encoder [[[1]]]) None False False ''cls'' False (- 1) 1 ''softmax''
     = Inr (example_model ''cls'' ''softmax'' (- 1) True)"
    by (simp add: BiEncoderModel_init_def example_model_def)
  have e: "\<not> is_initialized single_process_env"
    by (simp add: single_process_env_def)
  have m: "is_matrix 1 1 [[1::real]]"
    by (simp add: is_matrix_def)
  show ?thesis
    using a e m encode_cls_example [of "''softmax''" "- 1" True]
      temperature_never_checked
        [of True single_process_env "constant_encoder [[[1]]]" "constant_encoder [[[1]]]" None
            False False "''cls''" "- 1" 1 "''softmax''"]
      temperature_never_checked
        [of False single_process_env "constant_encoder [[[1]]]" "constant_encoder [[[1]]]" None
            False False "''cls''" "- 1" 1 "''softmax''"
            "\<lparr> input_ids = [[7]], attention_mask = [[1]] \<rparr>" "[[1]]"
            "\<lparr> input_ids = [[7]], attention_mask = [[1]] \<rparr>" "[[1]]" 1 1 1 cross_entropy_prob]
    by (simp add: dot_def example_model_def)
qed

end
